theory Spec2Isabelle
  imports Complex_Main
begin

section \<open>BookVerse: books, reviews and the rating aggregate\<close>

text \<open>
  A shallow embedding of the back end of the book review platform: the Mongoose models
  \<^verbatim>\<open>Review\<close> (models/Review.js, src/unnamed/part_000) and \<^verbatim>\<open>Book\<close> (models/Book.js,
  part_001), and the Express routes routes/books.js (part_002) and routes/reviews.js
  (part_003).

  Conventions of the model.
  \<^item> An ObjectId is its hexadecimal string. JavaScript numbers are exact rationals
    (\<^typ>\<open>rat\<close>); the sums, quotients and roundings of the code are computed exactly.
  \<^item> A collection is the list of its documents in insertion order. A query filter is a
    list of (path, value) pairs; a document matches when each path of the filter is a
    path of the document holding that value. The filter reaches the database as it is
    written (Mongoose's default, \<^verbatim>\<open>strictQuery: false\<close>), so a path that the documents
    of a collection do not have matches none of them.
  \<^item> A request is served at one instant: the environment gives the clock reading used
    for timestamps and the calendar year used by the validators.
  \<^item> A route returns the error it answers with (or its result) and the store it leaves.
\<close>

subsection \<open>Values, strings, numbers\<close>

type_synonym oid = string

datatype fval = VId oid | VNum rat | VStr string

record env =
  now :: nat
  currentYear :: nat

text \<open>White space and word characters of JavaScript regular expressions, over ASCII.\<close>

definition is_space :: "char \<Rightarrow> bool" where
  "is_space c = (c \<in> set [CHR '' '', CHR 0x09, CHR 0x0A, CHR 0x0B, CHR 0x0C, CHR 0x0D])"

definition is_digit :: "char \<Rightarrow> bool" where
  "is_digit c = (let n = (of_char c :: nat) in 48 \<le> n \<and> n \<le> 57)"

definition is_letter :: "char \<Rightarrow> bool" where
  "is_letter c = (let n = (of_char c :: nat) in (65 \<le> n \<and> n \<le> 90) \<or> (97 \<le> n \<and> n \<le> 122))"

definition is_word :: "char \<Rightarrow> bool" where
  "is_word c = (is_letter c \<or> is_digit c \<or> c = CHR ''_'')"

definition is_hex :: "char \<Rightarrow> bool" where
  "is_hex c = (let n = (of_char c :: nat) in
     (48 \<le> n \<and> n \<le> 57) \<or> (65 \<le> n \<and> n \<le> 70) \<or> (97 \<le> n \<and> n \<le> 102))"

definition trim :: "string \<Rightarrow> string" where
  "trim s = rev (dropWhile is_space (rev (dropWhile is_space s)))"

text \<open>\<^verbatim>\<open>s.replace(/\s+/g, ' ')\<close>: every run of white space becomes one blank.\<close>

function collapse_ws :: "string \<Rightarrow> string" where
  "collapse_ws [] = []"
| "collapse_ws (c # cs) =
     (if is_space c then CHR '' '' # collapse_ws (dropWhile is_space cs)
      else c # collapse_ws cs)"
  by pat_completeness auto
termination
  by (relation "measure length") (auto simp: less_Suc_eq_le length_dropWhile_le)

text \<open>\<^verbatim>\<open>Math.round\<close>: the nearest integer, a tie going up.\<close>

definition Math_round :: "rat \<Rightarrow> int" where
  "Math_round x = \<lfloor>x + 1 / 2\<rfloor>"

definition is_integer :: "rat \<Rightarrow> bool" where
  "is_integer x = (of_int \<lfloor>x\<rfloor> = x)"

subsection \<open>Documents and the store\<close>

text \<open>The Book schema (models/Book.js), with the two timestamps of \<^verbatim>\<open>timestamps: true\<close>.\<close>

record book =
  book_id :: oid
  bookTitle :: string
  authorName :: string
  bookSummary :: string
  literaryGenre :: string
  publicationYear :: rat
  sharedBy :: oid
  communityRating :: rat
  reviewCount :: nat
  readingLevel :: string
  estimatedReadingTime :: "rat option"
  isAvailable :: bool
  bookTags :: "string list"
  addedToLibrary :: nat
  book_createdAt :: nat
  book_updatedAt :: nat

text \<open>The Review schema (models/Review.js), with its timestamps.\<close>

record review =
  review_id :: oid
  reviewedBook :: oid
  reviewAuthor :: oid
  starRating :: rat
  reviewContent :: string
  readingContext :: string
  wouldRecommend :: "bool option"
  readingStatus :: string
  helpfulVotes :: nat
  isFlagged :: bool
  flagReason :: "string option"
  isPublic :: bool
  sharedOn :: nat
  lastModified :: nat
  review_createdAt :: nat
  review_updatedAt :: nat

record store =
  books :: "book list"
  reviews :: "review list"
  users :: "oid list"

datatype db_error = ValidationFailed | DuplicateKey | DocumentNotFound | CastFailed

datatype error =
  ValidationError | NotFoundError | ForbiddenError | DuplicateReviewError | ServerError

subsection \<open>Queries\<close>

text \<open>The paths of a stored review that the queries of the code can name.\<close>

definition review_path :: "string \<Rightarrow> review \<Rightarrow> fval option" where
  "review_path p r =
     (if p = ''_id'' then Some (VId (review_id r))
      else if p = ''reviewedBook'' then Some (VId (reviewedBook r))
      else if p = ''reviewAuthor'' then Some (VId (reviewAuthor r))
      else if p = ''starRating'' then Some (VNum (starRating r))
      else if p = ''reviewContent'' then Some (VStr (reviewContent r))
      else None)"

definition matches :: "(string \<times> fval) list \<Rightarrow> review \<Rightarrow> bool" where
  "matches flt r = list_all (\<lambda>(p, v). review_path p r = Some v) flt"

definition Review_find :: "(string \<times> fval) list \<Rightarrow> store \<Rightarrow> review list" where
  "Review_find flt s = filter (matches flt) (reviews s)"

definition Review_findOne :: "(string \<times> fval) list \<Rightarrow> store \<Rightarrow> review option" where
  "Review_findOne flt s = find (matches flt) (reviews s)"

definition Review_findById :: "oid \<Rightarrow> store \<Rightarrow> review option" where
  "Review_findById i s = find (\<lambda>r. review_id r = i) (reviews s)"

definition Review_deleteMany :: "(string \<times> fval) list \<Rightarrow> store \<Rightarrow> store" where
  "Review_deleteMany flt s = s\<lparr>reviews := filter (\<lambda>r. \<not> matches flt r) (reviews s)\<rparr>"

definition Book_findById :: "oid \<Rightarrow> store \<Rightarrow> book option" where
  "Book_findById i s = find (\<lambda>b. book_id b = i) (books s)"

text \<open>The first document that satisfies \<open>P\<close> is replaced by its image, or removed.\<close>

fun update_first :: "('a \<Rightarrow> bool) \<Rightarrow> ('a \<Rightarrow> 'a) \<Rightarrow> 'a list \<Rightarrow> 'a list" where
  "update_first P f [] = []"
| "update_first P f (x # xs) = (if P x then f x # xs else x # update_first P f xs)"

fun remove_first :: "('a \<Rightarrow> bool) \<Rightarrow> 'a list \<Rightarrow> 'a list" where
  "remove_first P [] = []"
| "remove_first P (x # xs) = (if P x then xs else x # remove_first P xs)"

text \<open>
  \<^verbatim>\<open>Book.findByIdAndUpdate(id, update)\<close> without validators: the update is applied to the
  book with that id, if there is one, and the schema's timestamps set \<^verbatim>\<open>updatedAt\<close>.
\<close>

definition Book_findByIdAndUpdate :: "env \<Rightarrow> oid \<Rightarrow> (book \<Rightarrow> book) \<Rightarrow> store \<Rightarrow> store" where
  "Book_findByIdAndUpdate e i upd s =
     s\<lparr>books := update_first (\<lambda>b. book_id b = i)
                   (\<lambda>b. (upd b)\<lparr>book_updatedAt := now e\<rparr>) (books s)\<rparr>"

definition Book_findByIdAndDelete :: "oid \<Rightarrow> store \<Rightarrow> store" where
  "Book_findByIdAndDelete i s = s\<lparr>books := remove_first (\<lambda>b. book_id b = i) (books s)\<rparr>"

subsection \<open>The aggregate updater of the review routes\<close>

text \<open>
  The setter of \<^verbatim>\<open>communityRating\<close> in the Book schema, which Mongoose applies when
  the path is assigned on a document and when an update is cast. It rounds as
  \<^verbatim>\<open>updateBookRating\<close> already did, so it changes nothing there.
\<close>

definition communityRating_set :: "rat \<Rightarrow> rat" where
  "communityRating_set rating = of_int (Math_round (rating * 10)) / 10"

definition updateBookRating :: "env \<Rightarrow> oid \<Rightarrow> store \<Rightarrow> store" where
  "updateBookRating e bookId s =
     (let revs = Review_find [(''reviewedBook'', VId bookId)] s;
          totalReviews = length revs;
          averageRating =
            (if totalReviews > 0
             then foldl (\<lambda>sum r. sum + starRating r) 0 revs / of_nat totalReviews
             else 0)
      in Book_findByIdAndUpdate e bookId
           (\<lambda>b. b\<lparr>communityRating :=
                     communityRating_set (of_int (Math_round (averageRating * 10)) / 10),
                   reviewCount := totalReviews\<rparr>) s)"

subsection \<open>The Book model: validators, hooks, \<^verbatim>\<open>recalculateRating\<close>\<close>

definition Book_genres :: "string list" where
  "Book_genres = [''Fiction'', ''Non-Fiction'', ''Mystery'', ''Romance'', ''Sci-Fi'',
     ''Fantasy'', ''Biography'', ''History'', ''Self-Help'', ''Technology'', ''Poetry'',
     ''Drama'', ''Other'']"

definition Book_readingLevels :: "string list" where
  "Book_readingLevels =
     [''Beginner'', ''Intermediate'', ''Advanced'', ''Expert'', ''Not Specified'']"

definition valid_bookTitle :: "string \<Rightarrow> bool" where
  "valid_bookTitle t =
     (t \<noteq> [] \<and> 1 \<le> length t \<and> length t \<le> 200 \<and> list_ex (\<lambda>c. is_letter c \<or> is_digit c) t)"

definition valid_authorName :: "string \<Rightarrow> bool" where
  "valid_authorName a = (a \<noteq> [] \<and> 2 \<le> length a \<and> length a \<le> 100 \<and> list_ex is_letter a)"

definition valid_bookSummary :: "string \<Rightarrow> bool" where
  "valid_bookSummary d = (d \<noteq> [] \<and> 10 \<le> length d \<and> length d \<le> 1000)"

definition valid_literaryGenre :: "string \<Rightarrow> bool" where
  "valid_literaryGenre g = (g \<in> set Book_genres)"

definition valid_publicationYear :: "env \<Rightarrow> rat \<Rightarrow> bool" where
  "valid_publicationYear e y =
     (1000 \<le> y \<and> y \<le> of_nat (currentYear e + 1) \<and>
      1400 \<le> y \<and> y \<le> of_nat (currentYear e + 1))"

definition Book_validate :: "env \<Rightarrow> book \<Rightarrow> bool" where
  "Book_validate e b =
     (valid_bookTitle (bookTitle b) \<and> valid_authorName (authorName b) \<and>
      valid_bookSummary (bookSummary b) \<and> valid_literaryGenre (literaryGenre b) \<and>
      valid_publicationYear e (publicationYear b) \<and> sharedBy b \<noteq> [] \<and>
      0 \<le> communityRating b \<and> communityRating b \<le> 5 \<and>
      readingLevel b \<in> set Book_readingLevels \<and>
      (case estimatedReadingTime b of None \<Rightarrow> True | Some t \<Rightarrow> 0 \<le> t) \<and>
      list_all (\<lambda>t. length t \<le> 30) (bookTags b))"

text \<open>The pre-save hook: empty and repeated tags go, the rating is clamped to 0..5.\<close>

definition Book_pre_save :: "book \<Rightarrow> book" where
  "Book_pre_save b =
     (let b1 = (if length (bookTags b) > 0
                then b\<lparr>bookTags :=
                       rev (remdups (rev (filter (\<lambda>t. t \<noteq> [] \<and> length (trim t) > 0)
                                            (bookTags b))))\<rparr>
                else b);
          b2 = (if communityRating b1 < 0 then b1\<lparr>communityRating := 0\<rparr> else b1)
      in if communityRating b2 > 5 then b2\<lparr>communityRating := 5\<rparr> else b2)"

text \<open>
  \<^verbatim>\<open>doc.save()\<close> on a book that was read from the store: validation, the pre-save hook,
  then the write of what changed (with \<^verbatim>\<open>updatedAt\<close>); an unchanged document writes
  nothing.
\<close>

definition Book_save :: "env \<Rightarrow> book \<Rightarrow> store \<Rightarrow> db_error + store" where
  "Book_save e doc s =
     (if \<not> Book_validate e doc then Inl ValidationFailed
      else let doc' = Book_pre_save doc in
        case Book_findById (book_id doc') s of
          None \<Rightarrow> Inl DocumentNotFound
        | Some old \<Rightarrow>
            if doc' = old then Inr s
            else Inr (s\<lparr>books := update_first (\<lambda>b. book_id b = book_id doc')
                                   (\<lambda>b. doc'\<lparr>book_updatedAt := now e\<rparr>) (books s)\<rparr>))"

text \<open>\<^verbatim>\<open>doc.save()\<close> on a new book: validation, the pre-save hook, the insert.\<close>

definition Book_insert :: "env \<Rightarrow> book \<Rightarrow> store \<Rightarrow> db_error + book \<times> store" where
  "Book_insert e doc s =
     (if \<not> Book_validate e doc then Inl ValidationFailed
      else let doc' = (Book_pre_save doc)\<lparr>book_createdAt := now e, book_updatedAt := now e\<rparr> in
        if list_ex (\<lambda>b. book_id b = book_id doc') (books s) then Inl DuplicateKey
        else Inr (doc', s\<lparr>books := books s @ [doc']\<rparr>))"

text \<open>
  A property that a review document does not have reads as \<^verbatim>\<open>undefined\<close>; adding it to
  a number gives \<^verbatim>\<open>NaN\<close>, which no Number path accepts. \<open>None\<close> is that \<^verbatim>\<open>NaN\<close>.
\<close>

definition review_num :: "string \<Rightarrow> review \<Rightarrow> rat option" where
  "review_num p r = (case review_path p r of Some (VNum x) \<Rightarrow> Some x | _ \<Rightarrow> None)"

definition js_add :: "rat option \<Rightarrow> rat option \<Rightarrow> rat option" where
  "js_add a b = (case (a, b) of (Some x, Some y) \<Rightarrow> Some (x + y) | _ \<Rightarrow> None)"

definition recalculateRating :: "env \<Rightarrow> book \<Rightarrow> store \<Rightarrow> db_error + store" where
  "recalculateRating e this s =
     (let revs = Review_find [(''bookId'', VId (book_id this))] s in
      if length revs = 0
      then Book_save e (this\<lparr>communityRating := communityRating_set 0, reviewCount := 0\<rparr>) s
      else
        case foldl (\<lambda>sum r. js_add sum (review_num ''rating'' r)) (Some 0) revs of
          None \<Rightarrow> Inl CastFailed
        | Some totalRating \<Rightarrow>
            Book_save e
              (this\<lparr>communityRating := communityRating_set (totalRating / of_nat (length revs)),
                    reviewCount := length revs\<rparr>) s)"

subsection \<open>The Review model: validators, hooks, writes\<close>

definition Review_contexts :: "string list" where
  "Review_contexts = [''Personal Enjoyment'', ''Academic Study'', ''Professional Development'',
     ''Book Club'', ''Recommendation'', ''Research'', ''Other'']"

definition Review_statuses :: "string list" where
  "Review_statuses = [''Completed'', ''Partially Read'', ''Skimmed'', ''Reference Only'']"

definition Review_flagReasons :: "string list" where
  "Review_flagReasons = [''Spam'', ''Inappropriate Content'', ''Off-topic'', ''Personal Attack'',
     ''Copyright Violation'', ''Other'']"

definition valid_starRating :: "rat \<Rightarrow> bool" where
  "valid_starRating r = (1 \<le> r \<and> r \<le> 5 \<and> is_integer r)"

definition valid_reviewContent :: "string \<Rightarrow> bool" where
  "valid_reviewContent c =
     (c \<noteq> [] \<and> 10 \<le> length c \<and> length c \<le> 1000 \<and> length (filter is_word c) \<ge> 5)"

definition Review_validate :: "store \<Rightarrow> review \<Rightarrow> bool" where
  "Review_validate s r =
     (reviewedBook r \<noteq> [] \<and> Book_findById (reviewedBook r) s \<noteq> None \<and>
      reviewAuthor r \<noteq> [] \<and> reviewAuthor r \<in> set (users s) \<and>
      valid_starRating (starRating r) \<and> valid_reviewContent (reviewContent r) \<and>
      readingContext r \<in> set Review_contexts \<and> readingStatus r \<in> set Review_statuses \<and>
      (case flagReason r of None \<Rightarrow> True | Some f \<Rightarrow> f \<in> set Review_flagReasons))"

text \<open>The pre-save hook of a review that is being created.\<close>

definition Review_pre_save :: "env \<Rightarrow> review \<Rightarrow> review" where
  "Review_pre_save e r =
     (let r1 = r\<lparr>lastModified := now e\<rparr> in
      if reviewContent r1 \<noteq> []
      then r1\<lparr>reviewContent := trim (collapse_ws (reviewContent r1))\<rparr>
      else r1)"

text \<open>
  The post-save and post-findOneAndDelete hooks: the book of the review, if it is
  there, recalculates its rating; whatever that throws is logged and dropped.
\<close>

definition Review_post_hook :: "env \<Rightarrow> review \<Rightarrow> store \<Rightarrow> store" where
  "Review_post_hook e doc s =
     (case Book_findById (reviewedBook doc) s of
        None \<Rightarrow> s
      | Some book \<Rightarrow> (case recalculateRating e book s of Inl err \<Rightarrow> s | Inr s' \<Rightarrow> s'))"

text \<open>
  \<^verbatim>\<open>review.save()\<close> on a new review: validation, the pre-save hook, the insert under the
  unique indexes on \<^verbatim>\<open>_id\<close> and on (reviewedBook, reviewAuthor), the post-save hook.
\<close>

definition Review_save :: "env \<Rightarrow> review \<Rightarrow> store \<Rightarrow> db_error + review \<times> store" where
  "Review_save e doc s =
     (if \<not> Review_validate s doc then Inl ValidationFailed
      else let doc' = (Review_pre_save e doc)\<lparr>review_createdAt := now e,
                                              review_updatedAt := now e\<rparr> in
        if list_ex (\<lambda>r. review_id r = review_id doc' \<or>
                         (reviewedBook r = reviewedBook doc' \<and>
                          reviewAuthor r = reviewAuthor doc')) (reviews s)
        then Inl DuplicateKey
        else Inr (doc', Review_post_hook e doc' (s\<lparr>reviews := reviews s @ [doc']\<rparr>)))"

text \<open>
  \<^verbatim>\<open>Review.findByIdAndUpdate(id, {$set: updateData}, {new: true, runValidators: true})\<close>:
  the validators of the paths that are set, then the write, which returns the updated
  document. No save or delete hook runs.
\<close>

definition apply_updateData :: "env \<Rightarrow> rat option \<Rightarrow> string option \<Rightarrow> review \<Rightarrow> review" where
  "apply_updateData e newRating newContent r =
     (let r1 = (case newRating of None \<Rightarrow> r | Some x \<Rightarrow> r\<lparr>starRating := x\<rparr>);
          r2 = (case newContent of None \<Rightarrow> r1 | Some c \<Rightarrow> r1\<lparr>reviewContent := trim c\<rparr>)
      in r2\<lparr>review_updatedAt := now e\<rparr>)"

definition Review_findByIdAndUpdate ::
  "env \<Rightarrow> oid \<Rightarrow> rat option \<Rightarrow> string option \<Rightarrow> store \<Rightarrow> db_error + review option \<times> store" where
  "Review_findByIdAndUpdate e i newRating newContent s =
     (if \<not> ((case newRating of None \<Rightarrow> True | Some x \<Rightarrow> valid_starRating x) \<and>
             (case newContent of None \<Rightarrow> True | Some c \<Rightarrow> valid_reviewContent (trim c)))
      then Inl ValidationFailed
      else Inr (map_option (apply_updateData e newRating newContent) (Review_findById i s),
                s\<lparr>reviews := update_first (\<lambda>r. review_id r = i)
                                 (apply_updateData e newRating newContent) (reviews s)\<rparr>))"

text \<open>\<^verbatim>\<open>Review.findByIdAndDelete(id)\<close>, with the post-findOneAndDelete hook.\<close>

definition Review_findByIdAndDelete :: "env \<Rightarrow> oid \<Rightarrow> store \<Rightarrow> store" where
  "Review_findByIdAndDelete e i s =
     (case Review_findById i s of
        None \<Rightarrow> s
      | Some doc \<Rightarrow>
          Review_post_hook e doc (s\<lparr>reviews := remove_first (\<lambda>r. review_id r = i) (reviews s)\<rparr>))"

subsection \<open>Request validation (express-validator)\<close>

text \<open>
  A body property is absent (\<open>None\<close>) or present. The rating and the year are JSON
  numbers. A sanitizer reads an absent property as the empty string. The property
  \<open>req_other\<close> stands for whatever else a client puts into the body of a book request.
\<close>

record review_body =
  req_bookId :: "string option"
  req_rating :: "rat option"
  req_reviewText :: "string option"

record book_body =
  req_title :: "string option"
  req_author :: "string option"
  req_description :: "string option"
  req_genre :: "string option"
  req_publishedYear :: "rat option"
  req_other :: "string \<Rightarrow> fval option"

text \<open>
  \<^verbatim>\<open>isMongoId\<close> of validator.js is \<^verbatim>\<open>isHexadecimal(str) && str.length === 24\<close>, and
  \<^verbatim>\<open>isHexadecimal\<close> tests \<^verbatim>\<open>/^(0x|0h)?[0-9A-F]+$/i\<close>: hexadecimal digits, at least
  one, after an optional prefix 0x or 0h in either case.
\<close>

definition isHexadecimal :: "string \<Rightarrow> bool" where
  "isHexadecimal x =
     ((x \<noteq> [] \<and> list_all is_hex x) \<or>
      (take 2 x \<in> set [''0x'', ''0X'', ''0h'', ''0H''] \<and> drop 2 x \<noteq> [] \<and>
       list_all is_hex (drop 2 x)))"

definition isMongoId :: "string option \<Rightarrow> bool" where
  "isMongoId v = (case v of None \<Rightarrow> False | Some x \<Rightarrow> isHexadecimal x \<and> length x = 24)"

text \<open>
  A query casts an id to an ObjectId before it reaches the database. Of the strings of
  24 characters, which are the ones that pass \<^verbatim>\<open>isMongoId\<close>, exactly the 24
  hexadecimal digits are cast; for another one the query throws a CastError.
\<close>

definition is_ObjectId :: "string \<Rightarrow> bool" where
  "is_ObjectId x = (length x = 24 \<and> list_all is_hex x)"

definition isInt :: "rat \<Rightarrow> rat \<Rightarrow> rat option \<Rightarrow> bool" where
  "isInt lo hi v = (case v of None \<Rightarrow> False | Some x \<Rightarrow> is_integer x \<and> lo \<le> x \<and> x \<le> hi)"

definition isLength :: "nat \<Rightarrow> nat option \<Rightarrow> string \<Rightarrow> bool" where
  "isLength lo hi x = (lo \<le> length x \<and> (case hi of None \<Rightarrow> True | Some h \<Rightarrow> length x \<le> h))"

definition isIn :: "string list \<Rightarrow> string option \<Rightarrow> bool" where
  "isIn xs v = (case v of None \<Rightarrow> False | Some x \<Rightarrow> x \<in> set xs)"

definition san_trim :: "string option \<Rightarrow> string" where
  "san_trim v = trim (case v of None \<Rightarrow> [] | Some x \<Rightarrow> x)"

text \<open>\<^verbatim>\<open>.optional()\<close>: an absent property is not checked.\<close>

definition optional :: "('a option \<Rightarrow> bool) \<Rightarrow> 'a option \<Rightarrow> bool" where
  "optional chk v = (case v of None \<Rightarrow> True | Some x \<Rightarrow> chk v)"

text \<open>\<^verbatim>\<open>if (req.body.x)\<close>: the property when it is present and truthy.\<close>

definition truthy_num :: "rat option \<Rightarrow> rat option" where
  "truthy_num v = (case v of None \<Rightarrow> None | Some x \<Rightarrow> if x = 0 then None else Some x)"

definition truthy_str :: "string option \<Rightarrow> string option" where
  "truthy_str v = (case v of None \<Rightarrow> None | Some x \<Rightarrow> if x = [] then None else Some x)"

subsection \<open>The review routes (routes/reviews.js)\<close>

definition create_review_validators :: "review_body \<Rightarrow> bool" where
  "create_review_validators body =
     (isMongoId (req_bookId body) \<and> isInt 1 5 (req_rating body) \<and>
      isLength 1 (Some 500) (san_trim (req_reviewText body)))"

definition update_review_validators :: "review_body \<Rightarrow> bool" where
  "update_review_validators body =
     (optional (isInt 1 5) (req_rating body) \<and>
      optional (\<lambda>v. isLength 1 (Some 500) (san_trim v)) (req_reviewText body))"

text \<open>\<^verbatim>\<open>new Review({reviewedBook, reviewAuthor, starRating, reviewContent})\<close> with the
  defaults of the schema; \<open>nid\<close> is the ObjectId the driver gives the document.\<close>

definition new_Review :: "env \<Rightarrow> oid \<Rightarrow> oid \<Rightarrow> oid \<Rightarrow> rat \<Rightarrow> string \<Rightarrow> review" where
  "new_Review e nid bookId user rating reviewText =
     \<lparr>review_id = nid, reviewedBook = bookId, reviewAuthor = user, starRating = rating,
      reviewContent = trim reviewText, readingContext = ''Personal Enjoyment'',
      wouldRecommend = None, readingStatus = ''Completed'', helpfulVotes = 0,
      isFlagged = False, flagReason = None, isPublic = True, sharedOn = now e,
      lastModified = now e, review_createdAt = now e, review_updatedAt = now e\<rparr>"

text \<open>
  POST /api/reviews, for the authenticated user \<open>user\<close>. The CastError that
  \<^verbatim>\<open>Book.findById(bookId)\<close> throws for an id that is no ObjectId is caught by the
  route, which answers 500 (it has no \<^verbatim>\<open>error.kind === "ObjectId"\<close> case).
\<close>

definition createReview ::
  "env \<Rightarrow> oid \<Rightarrow> oid \<Rightarrow> review_body \<Rightarrow> store \<Rightarrow> (error + review) \<times> store" where
  "createReview e nid user body s =
     (if \<not> create_review_validators body then (Inl ValidationError, s)
      else
        case (req_bookId body, req_rating body) of
          (Some bookId, Some rating) \<Rightarrow>
            (let reviewText = san_trim (req_reviewText body) in
             if \<not> is_ObjectId bookId then (Inl ServerError, s)
             else
               case Book_findById bookId s of
                 None \<Rightarrow> (Inl NotFoundError, s)
               | Some book \<Rightarrow>
                   (case Review_findOne [(''reviewedBook'', VId bookId),
                                         (''reviewAuthor'', VId user)] s of
                      Some existingReview \<Rightarrow> (Inl DuplicateReviewError, s)
                    | None \<Rightarrow>
                        (case Review_save e (new_Review e nid bookId user rating reviewText) s of
                           Inl err \<Rightarrow> (Inl ServerError, s)
                         | Inr (review, s1) \<Rightarrow>
                             (Inr review, updateBookRating e bookId s1))))
        | _ \<Rightarrow> (Inl ValidationError, s))"

text \<open>PUT /api/reviews/:id.\<close>

definition updateReview ::
  "env \<Rightarrow> oid \<Rightarrow> oid \<Rightarrow> review_body \<Rightarrow> store \<Rightarrow> (error + review) \<times> store" where
  "updateReview e user rid body s =
     (if \<not> update_review_validators body then (Inl ValidationError, s)
      else
        case Review_findById rid s of
          None \<Rightarrow> (Inl NotFoundError, s)
        | Some review \<Rightarrow>
            if reviewAuthor review \<noteq> user then (Inl ForbiddenError, s)
            else
              (case Review_findByIdAndUpdate e rid (truthy_num (req_rating body))
                      (truthy_str (map_option trim (req_reviewText body))) s of
                 Inl err \<Rightarrow> (Inl ServerError, s)
               | Inr (None, s1) \<Rightarrow>
                   (Inl ServerError, updateBookRating e (reviewedBook review) s1)
               | Inr (Some updatedReview, s1) \<Rightarrow>
                   (Inr updatedReview, updateBookRating e (reviewedBook review) s1)))"

text \<open>DELETE /api/reviews/:id.\<close>

definition deleteReview :: "env \<Rightarrow> oid \<Rightarrow> oid \<Rightarrow> store \<Rightarrow> (error + unit) \<times> store" where
  "deleteReview e user rid s =
     (case Review_findById rid s of
        None \<Rightarrow> (Inl NotFoundError, s)
      | Some review \<Rightarrow>
          if reviewAuthor review \<noteq> user then (Inl ForbiddenError, s)
          else
            (let bookId = reviewedBook review;
                 s1 = Review_findByIdAndDelete e rid s
             in (Inr (), updateBookRating e bookId s1)))"

subsection \<open>The book routes (routes/books.js)\<close>

definition route_genres :: "string list" where
  "route_genres = [''Fiction'', ''Non-Fiction'', ''Mystery'', ''Romance'', ''Sci-Fi'',
     ''Fantasy'', ''Biography'', ''History'', ''Self-Help'', ''Other'']"

definition create_book_validators :: "env \<Rightarrow> book_body \<Rightarrow> bool" where
  "create_book_validators e body =
     (isLength 1 None (san_trim (req_title body)) \<and>
      isLength 1 None (san_trim (req_author body)) \<and>
      isLength 1 None (san_trim (req_description body)) \<and>
      isIn route_genres (req_genre body) \<and>
      isInt 1000 (of_nat (currentYear e)) (req_publishedYear body))"

definition update_book_validators :: "env \<Rightarrow> book_body \<Rightarrow> bool" where
  "update_book_validators e body =
     (optional (\<lambda>v. isLength 1 None (san_trim v)) (req_title body) \<and>
      optional (\<lambda>v. isLength 1 None (san_trim v)) (req_author body) \<and>
      optional (\<lambda>v. isLength 1 None (san_trim v)) (req_description body) \<and>
      optional (isIn route_genres) (req_genre body) \<and>
      optional (isInt 1000 (of_nat (currentYear e))) (req_publishedYear body))"

text \<open>\<^verbatim>\<open>new Book({bookTitle, authorName, bookSummary, literaryGenre, publicationYear,
  sharedBy})\<close> with the defaults of the schema.\<close>

definition new_Book :: "env \<Rightarrow> oid \<Rightarrow> oid \<Rightarrow> string \<Rightarrow> string \<Rightarrow> string \<Rightarrow> string \<Rightarrow> rat \<Rightarrow> book" where
  "new_Book e nid user title author description genre publishedYear =
     \<lparr>book_id = nid, bookTitle = trim title, authorName = trim author,
      bookSummary = trim description, literaryGenre = genre,
      publicationYear = publishedYear, sharedBy = user, communityRating = 0,
      reviewCount = 0, readingLevel = ''Not Specified'', estimatedReadingTime = None,
      isAvailable = True, bookTags = [], addedToLibrary = now e,
      book_createdAt = now e, book_updatedAt = now e\<rparr>"

text \<open>POST /api/books.\<close>

definition createBook ::
  "env \<Rightarrow> oid \<Rightarrow> oid \<Rightarrow> book_body \<Rightarrow> store \<Rightarrow> (error + book) \<times> store" where
  "createBook e nid user body s =
     (if \<not> create_book_validators e body then (Inl ValidationError, s)
      else
        case (req_genre body, req_publishedYear body) of
          (Some genre, Some publishedYear) \<Rightarrow>
            (case Book_insert e
                    (new_Book e nid user (san_trim (req_title body)) (san_trim (req_author body))
                       (san_trim (req_description body)) genre publishedYear) s of
               Inl err \<Rightarrow> (Inl ServerError, s)
             | Inr (book, s1) \<Rightarrow> (Inr book, s1))
        | _ \<Rightarrow> (Inl ValidationError, s))"

text \<open>The \<^verbatim>\<open>$set\<close> of PUT /api/books/:id and the validators of the paths it sets.\<close>

definition apply_book_updateData ::
  "string option \<Rightarrow> string option \<Rightarrow> string option \<Rightarrow> string option \<Rightarrow> rat option \<Rightarrow>
   book \<Rightarrow> book" where
  "apply_book_updateData t a d g y b =
     (let b1 = (case t of None \<Rightarrow> b | Some x \<Rightarrow> b\<lparr>bookTitle := trim x\<rparr>);
          b2 = (case a of None \<Rightarrow> b1 | Some x \<Rightarrow> b1\<lparr>authorName := trim x\<rparr>);
          b3 = (case d of None \<Rightarrow> b2 | Some x \<Rightarrow> b2\<lparr>bookSummary := trim x\<rparr>);
          b4 = (case g of None \<Rightarrow> b3 | Some x \<Rightarrow> b3\<lparr>literaryGenre := x\<rparr>)
      in (case y of None \<Rightarrow> b4 | Some x \<Rightarrow> b4\<lparr>publicationYear := x\<rparr>))"

definition book_updateData_valid ::
  "env \<Rightarrow> string option \<Rightarrow> string option \<Rightarrow> string option \<Rightarrow> string option \<Rightarrow> rat option \<Rightarrow>
   bool" where
  "book_updateData_valid e t a d g y =
     ((case t of None \<Rightarrow> True | Some x \<Rightarrow> valid_bookTitle (trim x)) \<and>
      (case a of None \<Rightarrow> True | Some x \<Rightarrow> valid_authorName (trim x)) \<and>
      (case d of None \<Rightarrow> True | Some x \<Rightarrow> valid_bookSummary (trim x)) \<and>
      (case g of None \<Rightarrow> True | Some x \<Rightarrow> valid_literaryGenre x) \<and>
      (case y of None \<Rightarrow> True | Some x \<Rightarrow> valid_publicationYear e x))"

text \<open>PUT /api/books/:id.\<close>

definition updateBook ::
  "env \<Rightarrow> oid \<Rightarrow> oid \<Rightarrow> book_body \<Rightarrow> store \<Rightarrow> (error + book option) \<times> store" where
  "updateBook e user bid body s =
     (if \<not> update_book_validators e body then (Inl ValidationError, s)
      else
        case Book_findById bid s of
          None \<Rightarrow> (Inl NotFoundError, s)
        | Some book \<Rightarrow>
            if sharedBy book \<noteq> user then (Inl ForbiddenError, s)
            else
              (let t = truthy_str (map_option trim (req_title body));
                   a = truthy_str (map_option trim (req_author body));
                   d = truthy_str (map_option trim (req_description body));
                   g = truthy_str (req_genre body);
                   y = truthy_num (req_publishedYear body)
               in if \<not> book_updateData_valid e t a d g y then (Inl ServerError, s)
                  else
                    (let s1 = Book_findByIdAndUpdate e bid (apply_book_updateData t a d g y) s
                     in (Inr (Book_findById bid s1), s1))))"

text \<open>DELETE /api/books/:id.\<close>

definition deleteBook :: "oid \<Rightarrow> oid \<Rightarrow> store \<Rightarrow> (error + unit) \<times> store" where
  "deleteBook user bid s =
     (case Book_findById bid s of
        None \<Rightarrow> (Inl NotFoundError, s)
      | Some book \<Rightarrow>
          if sharedBy book \<noteq> user then (Inl ForbiddenError, s)
          else
            (let s1 = Review_deleteMany [(''bookId'', VId bid)] s;
                 s2 = Book_findByIdAndDelete bid s1
             in (Inr (), s2)))"

subsection \<open>The server as a state machine\<close>

datatype request =
    CreateReview oid oid review_body
  | UpdateReview oid oid review_body
  | DeleteReview oid oid
  | CreateBook oid oid book_body
  | UpdateBook oid oid book_body
  | DeleteBook oid oid

fun step :: "env \<Rightarrow> request \<Rightarrow> store \<Rightarrow> store" where
  "step e (CreateReview nid user body) s = snd (createReview e nid user body s)"
| "step e (UpdateReview user rid body) s = snd (updateReview e user rid body s)"
| "step e (DeleteReview user rid) s = snd (deleteReview e user rid s)"
| "step e (CreateBook nid user body) s = snd (createBook e nid user body s)"
| "step e (UpdateBook user bid body) s = snd (updateBook e user bid body s)"
| "step e (DeleteBook user bid) s = snd (deleteBook user bid s)"

fun run :: "(env \<times> request) list \<Rightarrow> store \<Rightarrow> store" where
  "run [] s = s"
| "run ((e, req) # reqs) s = run reqs (step e req s)"

subsection \<open>What the specification says of the aggregates and of uniqueness\<close>

text \<open>The reviews that reference a book, their number, and the mean of their ratings
  rounded to one decimal place (0 when there is none).\<close>

definition reviews_of :: "oid \<Rightarrow> store \<Rightarrow> review list" where
  "reviews_of b s = filter (\<lambda>r. reviewedBook r = b) (reviews s)"

definition mean_rating_1dp :: "oid \<Rightarrow> store \<Rightarrow> rat" where
  "mean_rating_1dp b s =
     (let rs = reviews_of b s in
      if rs = [] then 0
      else of_int (round (sum_list (map starRating rs) / of_nat (length rs) * 10)) / 10)"

definition has_review :: "oid \<Rightarrow> oid \<Rightarrow> store \<Rightarrow> bool" where
  "has_review b u s = list_ex (\<lambda>r. reviewedBook r = b \<and> reviewAuthor r = u) (reviews s)"

definition one_review_per_user_per_book :: "store \<Rightarrow> bool" where
  "one_review_per_user_per_book s =
     distinct (map (\<lambda>r. (reviewedBook r, reviewAuthor r)) (reviews s))"

text \<open>The fields of a book other than the two aggregates and \<^verbatim>\<open>updatedAt\<close>.\<close>

definition same_but_aggregates :: "book \<Rightarrow> book \<Rightarrow> bool" where
  "same_but_aggregates B B' =
     (B' = B\<lparr>communityRating := communityRating B', reviewCount := reviewCount B',
            book_updatedAt := book_updatedAt B'\<rparr>)"

subsection \<open>A small library, for the concrete checks\<close>

definition ex_env :: env where
  "ex_env = \<lparr>now = 2000, currentYear = 2024\<rparr>"

definition ex_owner :: oid where "ex_owner = ''64b000000000000000000001''"

definition ex_reader :: oid where "ex_reader = ''64b000000000000000000002''"

definition ex_bid :: oid where "ex_bid = ''64b0000000000000000000b1''"

definition ex_rid :: oid where "ex_rid = ''64b0000000000000000000c1''"

definition ex_book :: book where
  "ex_book =
     \<lparr>book_id = ex_bid, bookTitle = ''Dune'', authorName = ''Frank Herbert'',
      bookSummary = ''A desert planet'', literaryGenre = ''Fiction'',
      publicationYear = 1965, sharedBy = ex_owner, communityRating = 0,
      reviewCount = 0, readingLevel = ''Not Specified'', estimatedReadingTime = None,
      isAvailable = True, bookTags = [], addedToLibrary = 1000,
      book_createdAt = 1000, book_updatedAt = 1000\<rparr>"

definition ex_review :: review where
  "ex_review =
     \<lparr>review_id = ex_rid, reviewedBook = ex_bid, reviewAuthor = ex_reader, starRating = 4,
      reviewContent = ''A fine book'', readingContext = ''Personal Enjoyment'',
      wouldRecommend = None, readingStatus = ''Completed'', helpfulVotes = 0,
      isFlagged = False, flagReason = None, isPublic = True, sharedOn = 2000,
      lastModified = 2000, review_createdAt = 2000, review_updatedAt = 2000\<rparr>"

definition ex_body :: "rat \<Rightarrow> review_body" where
  "ex_body x = \<lparr>req_bookId = Some ex_bid, req_rating = Some x,
                req_reviewText = Some ''A fine book''\<rparr>"


definition ex_patch :: "rat \<Rightarrow> review_body" where
  "ex_patch x = \<lparr>req_bookId = None, req_rating = Some x, req_reviewText = None\<rparr>"

text \<open>The library with the book and no review; with the book and one review,
  aggregates in place; that one after the review's rating went from 4 to 2, and after
  the review was deleted; and the library with the review but without its book.\<close>

definition ex_store0 :: store where
  "ex_store0 = \<lparr>books = [ex_book], reviews = [], users = [ex_owner, ex_reader]\<rparr>"

definition ex_store1 :: store where
  "ex_store1 =
     \<lparr>books = [ex_book\<lparr>communityRating := 4, reviewCount := 1, book_updatedAt := 2000\<rparr>],
      reviews = [ex_review], users = [ex_owner, ex_reader]\<rparr>"

definition ex_store2 :: store where
  "ex_store2 =
     \<lparr>books = [ex_book\<lparr>communityRating := 2, reviewCount := 1, book_updatedAt := 2000\<rparr>],
      reviews = [ex_review\<lparr>starRating := 2\<rparr>], users = [ex_owner, ex_reader]\<rparr>"

definition ex_store3 :: store where
  "ex_store3 =
     \<lparr>books = [ex_book\<lparr>book_updatedAt := 2000\<rparr>], reviews = [],
      users = [ex_owner, ex_reader]\<rparr>"

definition ex_orphaned :: store where
  "ex_orphaned = \<lparr>books = [], reviews = [ex_review], users = [ex_owner, ex_reader]\<rparr>"

text \<open>A second book, that nobody reviewed, next to the reviewed one.\<close>

definition ex_other_book :: book where
  "ex_other_book = ex_book\<lparr>book_id := ''64b0000000000000000000b2'', bookTitle := ''Emma'',
                             authorName := ''Jane Austen''\<rparr>"

definition ex_two_books :: store where
  "ex_two_books =
     \<lparr>books = [ex_book, ex_other_book], reviews = [ex_review],
      users = [ex_owner, ex_reader]\<rparr>"

text \<open>The library before its book was added, at time 1000, and a body for
  POST /api/books in which the client also sends aggregates.\<close>

definition ex_env0 :: env where
  "ex_env0 = \<lparr>now = 1000, currentYear = 2024\<rparr>"

definition ex_empty :: store where
  "ex_empty = \<lparr>books = [], reviews = [], users = [ex_owner, ex_reader]\<rparr>"

definition ex_book_body :: book_body where
  "ex_book_body =
     \<lparr>req_title = Some ''Dune'', req_author = Some ''Frank Herbert'',
      req_description = Some ''A desert planet'', req_genre = Some ''Fiction'',
      req_publishedYear = Some 1965,
      req_other = [''communityRating'' \<mapsto> VNum 5, ''reviewCount'' \<mapsto> VNum 99,
                   ''averageRating'' \<mapsto> VNum 5, ''totalReviews'' \<mapsto> VNum 99]\<rparr>"

section \<open>Properties\<close>

subsection \<open>Queries and list updates\<close>

lemma matches_reviewedBook:
  "matches [(''reviewedBook'', VId b)] = (\<lambda>r. reviewedBook r = b)"
  by (rule ext) (simp add: matches_def review_path_def)

lemma matches_book_author:
  "matches [(''reviewedBook'', VId b), (''reviewAuthor'', VId u)] =
     (\<lambda>r. reviewedBook r = b \<and> reviewAuthor r = u)"
  by (rule ext) (simp add: matches_def review_path_def)

lemma matches_bookId: "matches [(''bookId'', v)] = (\<lambda>r. False)"
  by (rule ext) (simp add: matches_def review_path_def)

lemma Review_find_reviewedBook:
  "Review_find [(''reviewedBook'', VId b)] s = reviews_of b s"
  by (simp add: Review_find_def reviews_of_def matches_reviewedBook)

lemma Review_find_bookId: "Review_find [(''bookId'', v)] s = []"
  by (simp add: Review_find_def matches_bookId)

lemma Review_deleteMany_bookId: "Review_deleteMany [(''bookId'', v)] s = s"
  by (simp add: Review_deleteMany_def matches_bookId)

lemma find_None_list_ex: "find P xs = None \<longleftrightarrow> \<not> list_ex P xs"
  by (induction xs) auto

lemma Review_findOne_book_author:
  "Review_findOne [(''reviewedBook'', VId b), (''reviewAuthor'', VId u)] s = None
     \<longleftrightarrow> \<not> has_review b u s"
  by (simp add: Review_findOne_def has_review_def matches_book_author find_None_list_ex)

lemma find_update_first:
  "(\<And>x. P x \<Longrightarrow> P (f x)) \<Longrightarrow> find P (update_first P f xs) = map_option f (find P xs)"
  by (induction xs) auto

lemma update_first_no_match: "find P xs = None \<Longrightarrow> update_first P f xs = xs"
  by (induction xs) (auto split: if_splits)

lemma map_update_first:
  "(\<And>x. P x \<Longrightarrow> g (f x) = g x) \<Longrightarrow> map g (update_first P f xs) = map g xs"
  by (induction xs) auto

lemma find_None_iff_ids: "find (\<lambda>x. g x = i) xs = None \<longleftrightarrow> i \<notin> set (map g xs)"
  by (induction xs) auto

lemma Book_findById_same_ids:
  "map book_id (books s1) = map book_id (books s) \<Longrightarrow>
     (Book_findById i s1 = None) = (Book_findById i s = None)"
  unfolding Book_findById_def find_None_iff_ids by simp

subsection \<open>Rounding\<close>

lemma floor_half_rat: "\<lfloor>1 / 2 :: rat\<rfloor> = 0"
  by (simp add: floor_eq_iff)

lemma Math_round_of_int: "Math_round (of_int k) = k"
  by (simp add: Math_round_def floor_half_rat)

lemma communityRating_set_tenths: "communityRating_set (of_int k / 10) = of_int k / 10"
  by (simp add: communityRating_set_def Math_round_of_int)

lemma communityRating_set_0: "communityRating_set 0 = 0"
  using communityRating_set_tenths [of 0] by simp

lemma foldl_starRating:
  "foldl (\<lambda>sum r. sum + starRating r) a rs = a + sum_list (map starRating rs)"
  by (induction rs arbitrary: a) (simp_all add: add.assoc)

subsection \<open>The aggregate updater\<close>

lemma updateBookRating_eq:
  "updateBookRating e b s =
     Book_findByIdAndUpdate e b
       (\<lambda>B. B\<lparr>communityRating := mean_rating_1dp b s,
               reviewCount := length (reviews_of b s)\<rparr>) s"
proof -
  have "communityRating_set (of_int (Math_round
          ((if 0 < length (reviews_of b s)
            then foldl (\<lambda>sum r. sum + starRating r) 0 (reviews_of b s)
                   / of_nat (length (reviews_of b s))
            else 0) * 10)) / 10) = mean_rating_1dp b s"
    by (simp add: communityRating_set_tenths mean_rating_1dp_def foldl_starRating
        Math_round_def round_def Let_def floor_half_rat)
  then show ?thesis
    unfolding updateBookRating_def Review_find_reviewedBook Let_def by simp
qed

lemma reviews_updateBookRating: "reviews (updateBookRating e b s) = reviews s"
  by (simp add: updateBookRating_eq Book_findByIdAndUpdate_def)

lemma users_updateBookRating: "users (updateBookRating e b s) = users s"
  by (simp add: updateBookRating_eq Book_findByIdAndUpdate_def)

lemma reviews_of_updateBookRating: "reviews_of b (updateBookRating e b' s) = reviews_of b s"
  by (simp add: reviews_of_def reviews_updateBookRating)

lemma mean_updateBookRating:
  "mean_rating_1dp b (updateBookRating e b' s) = mean_rating_1dp b s"
  by (simp add: mean_rating_1dp_def reviews_of_updateBookRating)

lemma Book_findById_updateBookRating:
  "Book_findById b (updateBookRating e b s) =
     map_option (\<lambda>B. B\<lparr>communityRating := mean_rating_1dp b s,
                       reviewCount := length (reviews_of b s),
                       book_updatedAt := now e\<rparr>) (Book_findById b s)"
  unfolding updateBookRating_eq Book_findByIdAndUpdate_def Book_findById_def
  by (simp add: find_update_first)

lemma aggregates_after_updateBookRating:
  assumes "Book_findById b (updateBookRating e b s1) = Some B"
  shows "communityRating B = mean_rating_1dp b (updateBookRating e b s1)"
    and "reviewCount B = length (reviews_of b (updateBookRating e b s1))"
  using assms
  by (auto simp: Book_findById_updateBookRating mean_updateBookRating
      reviews_of_updateBookRating)

lemma updateBookRating_no_book:
  "Book_findById b s = None \<Longrightarrow> updateBookRating e b s = s"
  by (simp add: updateBookRating_eq Book_findByIdAndUpdate_def Book_findById_def
      update_first_no_match)

subsection \<open>The hooks\<close>

lemma book_id_pre_save: "book_id (Book_pre_save b) = book_id b"
  by (simp add: Book_pre_save_def Let_def)

lemma Book_save_ids:
  assumes "Book_save e doc s = Inr s'"
  shows "map book_id (books s') = map book_id (books s)"
proof -
  have "map book_id (update_first (\<lambda>b. book_id b = book_id (Book_pre_save doc))
          (\<lambda>b. (Book_pre_save doc)\<lparr>book_updatedAt := now e\<rparr>) (books s)) = map book_id (books s)"
    by (rule map_update_first) simp
  with assms show ?thesis
    by (auto simp: Book_save_def Let_def split: if_splits option.splits)
qed

lemma Book_save_reviews: "Book_save e doc s = Inr s' \<Longrightarrow> reviews s' = reviews s"
  by (auto simp: Book_save_def Let_def split: if_splits option.splits)

lemma recalculateRating_eq:
  "recalculateRating e this s =
     Book_save e (this\<lparr>communityRating := 0, reviewCount := 0\<rparr>) s"
  by (simp add: recalculateRating_def Review_find_bookId communityRating_set_0)

lemma Review_post_hook_ids:
  "map book_id (books (Review_post_hook e d s)) = map book_id (books s)"
  by (auto simp: Review_post_hook_def recalculateRating_eq dest: Book_save_ids
      split: option.splits sum.splits)

lemma Review_post_hook_reviews: "reviews (Review_post_hook e d s) = reviews s"
  by (auto simp: Review_post_hook_def recalculateRating_eq dest: Book_save_reviews
      split: option.splits sum.splits)

lemma Review_post_hook_no_book:
  "Book_findById (reviewedBook d) s = None \<Longrightarrow> Review_post_hook e d s = s"
  by (simp add: Review_post_hook_def)

subsection \<open>The shape of a successful review write\<close>

lemma createReview_Inr:
  assumes "createReview e nid u body s = (Inr r, s')" and "req_bookId body = Some b"
  shows "\<exists>s1. s' = updateBookRating e b s1 \<and> Book_findById b s1 \<noteq> None"
proof -
  from assms obtain book doc s1 where
    bk: "Book_findById b s = Some book" and
    sv: "Review_save e doc s = Inr (r, s1)" and s': "s' = updateBookRating e b s1"
    unfolding createReview_def Let_def
    by (auto split: if_splits option.splits sum.splits prod.splits)
  from sv obtain d' where s1: "s1 = Review_post_hook e d' (s\<lparr>reviews := reviews s @ [d']\<rparr>)"
    by (auto simp: Review_save_def Let_def split: if_splits)
  have "map book_id (books s1) = map book_id (books (s\<lparr>reviews := reviews s @ [d']\<rparr>))"
    unfolding s1 by (rule Review_post_hook_ids)
  then have ids: "map book_id (books s1) = map book_id (books s)" by simp
  have "Book_findById b s1 \<noteq> None"
    using Book_findById_same_ids [OF ids, of b] bk by simp
  with s' show ?thesis by blast
qed

lemma updateReview_Inr:
  assumes "updateReview e u rid body s = (Inr r, s')" and "Review_findById rid s = Some r0"
  shows "\<exists>s1. s' = updateBookRating e (reviewedBook r0) s1"
  using assms unfolding updateReview_def
  by (auto split: if_splits option.splits sum.splits prod.splits)

lemma deleteReview_Inr:
  assumes "deleteReview e u rid s = (Inr (), s')" and "Review_findById rid s = Some r0"
  shows "\<exists>s1. s' = updateBookRating e (reviewedBook r0) s1"
  using assms unfolding deleteReview_def Let_def
  by (auto split: if_splits option.splits)

subsection \<open>The shape of a successful review write, forwards\<close>

lemma Review_save_success:
  assumes "Review_validate s doc"
    and "\<not> list_ex (\<lambda>r. review_id r = review_id doc \<or>
                         (reviewedBook r = reviewedBook doc \<and>
                          reviewAuthor r = reviewAuthor doc)) (reviews s)"
    and "doc' = (Review_pre_save e doc)\<lparr>review_createdAt := now e, review_updatedAt := now e\<rparr>"
  shows "Review_save e doc s =
           Inr (doc', Review_post_hook e doc' (s\<lparr>reviews := reviews s @ [doc']\<rparr>))"
proof -
  have "review_id doc' = review_id doc" "reviewedBook doc' = reviewedBook doc"
    "reviewAuthor doc' = reviewAuthor doc"
    by (simp_all add: assms(3) Review_pre_save_def Let_def)
  with assms show ?thesis
    by (simp add: Review_save_def Let_def)
qed

lemma createReview_success:
  assumes "create_review_validators body"
    and "req_bookId body = Some b" and "req_rating body = Some x"
    and "Book_findById b s = Some book" and "\<not> has_review b u s"
    and "Review_save e (new_Review e nid b u x (san_trim (req_reviewText body))) s = Inr (r, s1)"
    and "is_ObjectId b"
  shows "createReview e nid u body s = (Inr r, updateBookRating e b s1)"
proof -
  have "Review_findOne [(''reviewedBook'', VId b), (''reviewAuthor'', VId u)] s = None"
    using assms(5) by (simp add: Review_findOne_book_author)
  with assms show ?thesis
    by (simp add: createReview_def)
qed

lemma isInt_valid_starRating: "isInt 1 5 (Some x) \<Longrightarrow> valid_starRating x"
  by (simp add: isInt_def valid_starRating_def)

lemma update_validators_rating:
  "update_review_validators body \<Longrightarrow>
     (case truthy_num (req_rating body) of None \<Rightarrow> True | Some x \<Rightarrow> valid_starRating x)"
  by (auto simp: update_review_validators_def optional_def truthy_num_def
      isInt_valid_starRating split: option.splits if_splits)

lemma updateReview_success:
  assumes "update_review_validators body"
    and "Review_findById rid s = Some r0" and "reviewAuthor r0 = u"
    and "case truthy_str (map_option trim (req_reviewText body)) of
           None \<Rightarrow> True | Some c \<Rightarrow> valid_reviewContent (trim c)"
    and "upd = apply_updateData e (truthy_num (req_rating body))
                 (truthy_str (map_option trim (req_reviewText body)))"
  shows "updateReview e u rid body s =
           (Inr (upd r0),
            updateBookRating e (reviewedBook r0)
              (s\<lparr>reviews := update_first (\<lambda>r. review_id r = rid) upd (reviews s)\<rparr>))"
  using assms update_validators_rating [OF assms(1)]
  by (simp add: updateReview_def Review_findByIdAndUpdate_def)

lemma deleteReview_success:
  assumes "Review_findById rid s = Some r0" and "reviewAuthor r0 = u"
  shows "deleteReview e u rid s =
           (Inr (),
            updateBookRating e (reviewedBook r0)
              (Review_post_hook e r0
                 (s\<lparr>reviews := remove_first (\<lambda>r. review_id r = rid) (reviews s)\<rparr>)))"
  using assms by (simp add: deleteReview_def Review_findByIdAndDelete_def)

subsection \<open>The small library, evaluated\<close>

lemma ex_validators: "create_review_validators (ex_body 4)"
  by (simp add: create_review_validators_def ex_body_def isMongoId_def isHexadecimal_def
      ex_bid_def is_hex_def isInt_def is_integer_def isLength_def san_trim_def trim_def
      is_space_def)

lemma ex_bid_ObjectId: "is_ObjectId ex_bid"
  by (simp add: is_ObjectId_def ex_bid_def is_hex_def)

lemma ex_new_Review:
  "new_Review ex_env ex_rid ex_bid ex_reader 4 (san_trim (req_reviewText (ex_body 4))) = ex_review"
  by (simp add: new_Review_def ex_review_def ex_env_def ex_body_def san_trim_def trim_def
      is_space_def)

lemma ex_Book_findById0: "Book_findById ex_bid ex_store0 = Some ex_book"
  by (simp add: Book_findById_def ex_store0_def ex_book_def)

lemma ex_Book_findById1:
  "Book_findById ex_bid ex_store1 =
     Some (ex_book\<lparr>communityRating := 4, reviewCount := 1, book_updatedAt := 2000\<rparr>)"
  by (simp add: Book_findById_def ex_store1_def ex_book_def)

lemma ex_Review_findById1: "Review_findById ex_rid ex_store1 = Some ex_review"
  by (simp add: Review_findById_def ex_store1_def ex_review_def)

lemma ex_Review_validate: "Review_validate ex_store0 ex_review"
proof -
  have "Book_findById (reviewedBook ex_review) ex_store0 \<noteq> None"
    by (simp add: ex_review_def ex_Book_findById0)
  moreover have "reviewAuthor ex_review \<in> set (users ex_store0)"
    by (simp add: ex_review_def ex_store0_def)
  moreover have "reviewedBook ex_review \<noteq> [] \<and> reviewAuthor ex_review \<noteq> []"
    by (simp add: ex_review_def ex_bid_def ex_reader_def)
  moreover have "valid_starRating (starRating ex_review)"
    by (simp add: ex_review_def valid_starRating_def is_integer_def)
  moreover have "valid_reviewContent (reviewContent ex_review)"
    by (simp add: ex_review_def valid_reviewContent_def is_word_def is_letter_def is_digit_def)
  moreover have "readingContext ex_review \<in> set Review_contexts \<and>
      readingStatus ex_review \<in> set Review_statuses \<and> flagReason ex_review = None"
    by (simp add: ex_review_def Review_contexts_def Review_statuses_def)
  ultimately show ?thesis
    by (simp add: Review_validate_def)
qed

lemma ex_Review_pre_save: "Review_pre_save ex_env ex_review = ex_review"
  by (simp add: Review_pre_save_def ex_review_def ex_env_def trim_def is_space_def)

lemma ex_Book_validate: "Book_validate ex_env (ex_book\<lparr>communityRating := 0, reviewCount := 0\<rparr>)"
  by (simp add: Book_validate_def ex_book_def ex_env_def valid_bookTitle_def
      valid_authorName_def valid_bookSummary_def valid_literaryGenre_def
      valid_publicationYear_def Book_genres_def Book_readingLevels_def is_letter_def
      is_digit_def ex_owner_def)

lemma ex_Book_pre_save:
  "Book_pre_save (ex_book\<lparr>communityRating := 0, reviewCount := 0\<rparr>) = ex_book"
  by (simp add: Book_pre_save_def ex_book_def)

lemma ex_recalculate0:
  "recalculateRating ex_env ex_book (ex_store0\<lparr>reviews := rs\<rparr>) = Inr (ex_store0\<lparr>reviews := rs\<rparr>)"
proof -
  have "Book_findById ex_bid (ex_store0\<lparr>reviews := rs\<rparr>) = Some ex_book"
    by (simp add: Book_findById_def ex_store0_def ex_book_def)
  moreover have "book_id ex_book = ex_bid"
    by (simp add: ex_book_def)
  ultimately show ?thesis
    by (simp add: recalculateRating_eq Book_save_def ex_Book_validate ex_Book_pre_save)
qed

lemma ex_post_hook0:
  "Review_post_hook ex_env ex_review (ex_store0\<lparr>reviews := rs\<rparr>) = ex_store0\<lparr>reviews := rs\<rparr>"
proof -
  have "Book_findById (reviewedBook ex_review) (ex_store0\<lparr>reviews := rs\<rparr>) = Some ex_book"
    by (simp add: Book_findById_def ex_store0_def ex_book_def ex_review_def)
  then show ?thesis
    by (simp add: Review_post_hook_def ex_recalculate0)
qed

lemma ex_Review_save:
  "Review_save ex_env ex_review ex_store0 = Inr (ex_review, ex_store0\<lparr>reviews := [ex_review]\<rparr>)"
proof -
  have d: "ex_review = (Review_pre_save ex_env ex_review)
             \<lparr>review_createdAt := now ex_env, review_updatedAt := now ex_env\<rparr>"
    by (simp add: ex_Review_pre_save) (simp add: ex_review_def ex_env_def)
  have "reviews ex_store0 = []"
    by (simp add: ex_store0_def)
  then show ?thesis
    using Review_save_success [OF ex_Review_validate _ d] by (simp add: ex_post_hook0)
qed

lemma ex_mean1: "mean_rating_1dp ex_bid (ex_store0\<lparr>reviews := [ex_review]\<rparr>) = 4"
  by (simp add: mean_rating_1dp_def reviews_of_def ex_review_def)

lemma ex_updateBookRating:
  "updateBookRating ex_env ex_bid (ex_store0\<lparr>reviews := [ex_review]\<rparr>) = ex_store1"
  by (simp add: updateBookRating_eq ex_mean1)
    (simp add: reviews_of_def Book_findByIdAndUpdate_def ex_store0_def ex_store1_def
      ex_review_def ex_book_def ex_env_def)

lemma ex_create:
  "createReview ex_env ex_rid ex_reader (ex_body 4) ex_store0 = (Inr ex_review, ex_store1)"
proof -
  have "req_bookId (ex_body 4) = Some ex_bid" "req_rating (ex_body 4) = Some 4"
    by (simp_all add: ex_body_def)
  moreover have "\<not> has_review ex_bid ex_reader ex_store0"
    by (simp add: has_review_def ex_store0_def)
  moreover have "Review_save ex_env (new_Review ex_env ex_rid ex_bid ex_reader 4
      (san_trim (req_reviewText (ex_body 4)))) ex_store0
      = Inr (ex_review, ex_store0\<lparr>reviews := [ex_review]\<rparr>)"
    by (simp only: ex_new_Review ex_Review_save)
  ultimately show ?thesis
    using createReview_success [OF ex_validators _ _ ex_Book_findById0 _ _ ex_bid_ObjectId]
    by (simp add: ex_updateBookRating)
qed

subsection \<open>More on lookups and on the post hooks\<close>

lemma find_Some_holds: "find P xs = Some x \<Longrightarrow> P x"
  by (induction xs) (auto split: if_splits)

lemma Book_findById_id: "Book_findById i s = Some B \<Longrightarrow> book_id B = i"
  unfolding Book_findById_def by (drule find_Some_holds) simp

lemma Review_findById_id: "Review_findById i s = Some r \<Longrightarrow> review_id r = i"
  unfolding Review_findById_def by (drule find_Some_holds) simp

lemma Review_post_hook_found:
  assumes "Book_findById (reviewedBook d) s = Some B"
    and "Book_validate e (B\<lparr>communityRating := 0, reviewCount := 0\<rparr>)"
    and "doc' = Book_pre_save (B\<lparr>communityRating := 0, reviewCount := 0\<rparr>)"
  shows "Review_post_hook e d s =
           (if doc' = B then s
            else s\<lparr>books := update_first (\<lambda>b. book_id b = book_id B)
                               (\<lambda>b. doc'\<lparr>book_updatedAt := now e\<rparr>) (books s)\<rparr>)"
proof -
  have i: "book_id doc' = reviewedBook d" "book_id B = reviewedBook d"
    using Book_findById_id [OF assms(1)] by (simp_all add: assms(3) book_id_pre_save)
  show ?thesis
    using assms(1,2)
    by (simp add: Review_post_hook_def recalculateRating_eq Book_save_def Let_def
        assms(3) [symmetric] i)
qed

subsection \<open>A rating changed and a review deleted, evaluated\<close>

lemma ex_update:
  "updateReview ex_env ex_reader ex_rid (ex_patch 2) ex_store1
     = (Inr (ex_review\<lparr>starRating := 2\<rparr>), ex_store2)"
proof -
  define S where "S = ex_store1\<lparr>reviews := [ex_review\<lparr>starRating := 2\<rparr>]\<rparr>"
  define upd where "upd = apply_updateData ex_env (truthy_num (req_rating (ex_patch 2)))
                 (truthy_str (map_option trim (req_reviewText (ex_patch 2))))"
  have v: "update_review_validators (ex_patch 2)"
    by (simp add: update_review_validators_def ex_patch_def optional_def isInt_def
        is_integer_def)
  have a: "reviewAuthor ex_review = ex_reader" and b: "reviewedBook ex_review = ex_bid"
    by (simp_all add: ex_review_def)
  have c: "case truthy_str (map_option trim (req_reviewText (ex_patch 2))) of
             None \<Rightarrow> True | Some c \<Rightarrow> valid_reviewContent (trim c)"
    by (simp add: ex_patch_def truthy_str_def)
  have u: "upd ex_review = ex_review\<lparr>starRating := 2\<rparr>"
    by (simp add: upd_def apply_updateData_def ex_patch_def truthy_num_def truthy_str_def
        ex_review_def ex_env_def)
  have s1: "ex_store1\<lparr>reviews := update_first (\<lambda>r. review_id r = ex_rid) upd (reviews ex_store1)\<rparr>
          = S"
    using u by (simp add: S_def ex_store1_def) (simp add: ex_review_def)
  have m: "mean_rating_1dp ex_bid S = 2" and n: "length (reviews_of ex_bid S) = 1"
    by (simp_all add: S_def mean_rating_1dp_def reviews_of_def ex_review_def)
  have "updateBookRating ex_env ex_bid S = ex_store2"
    unfolding updateBookRating_eq m n
    by (simp add: S_def Book_findByIdAndUpdate_def ex_store1_def ex_store2_def ex_book_def
        ex_env_def)
  then show ?thesis
    using updateReview_success [OF v ex_Review_findById1 a c upd_def] by (simp add: u s1 b)
qed

lemma ex_delete: "deleteReview ex_env ex_reader ex_rid ex_store1 = (Inr (), ex_store3)"
proof -
  define B1 where "B1 = ex_book\<lparr>communityRating := 4, reviewCount := 1, book_updatedAt := 2000\<rparr>"
  define S where "S = ex_store1\<lparr>reviews := []\<rparr>"
  have a: "reviewAuthor ex_review = ex_reader" and b: "reviewedBook ex_review = ex_bid"
    by (simp_all add: ex_review_def)
  have s1: "ex_store1\<lparr>reviews := remove_first (\<lambda>r. review_id r = ex_rid) (reviews ex_store1)\<rparr>
          = S"
    by (simp add: S_def ex_store1_def ex_review_def)
  have f: "Book_findById (reviewedBook ex_review) S = Some B1"
    by (simp add: S_def B1_def b Book_findById_def ex_store1_def ex_book_def)
  have v: "Book_validate ex_env (B1\<lparr>communityRating := 0, reviewCount := 0\<rparr>)"
    using ex_Book_validate by (simp add: B1_def Book_validate_def)
  have p: "ex_book\<lparr>book_updatedAt := 2000\<rparr>
             = Book_pre_save (B1\<lparr>communityRating := 0, reviewCount := 0\<rparr>)"
    by (simp add: B1_def Book_pre_save_def ex_book_def)
  have n: "ex_book\<lparr>book_updatedAt := 2000\<rparr> \<noteq> B1"
    by (simp add: B1_def ex_book_def)
  have w: "S\<lparr>books := update_first (\<lambda>b. book_id b = book_id B1)
              (\<lambda>b. ex_book\<lparr>book_updatedAt := 2000, book_updatedAt := now ex_env\<rparr>) (books S)\<rparr>
           = ex_store3"
    by (simp add: S_def B1_def ex_store1_def ex_store3_def ex_book_def ex_env_def)
  have h: "Review_post_hook ex_env ex_review S = ex_store3"
    unfolding Review_post_hook_found [OF f v p] using n w by simp
  have m: "mean_rating_1dp ex_bid ex_store3 = 0" and l: "length (reviews_of ex_bid ex_store3) = 0"
    by (simp_all add: mean_rating_1dp_def reviews_of_def ex_store3_def)
  have "updateBookRating ex_env ex_bid ex_store3 = ex_store3"
    unfolding updateBookRating_eq m l
    by (simp add: Book_findByIdAndUpdate_def ex_store3_def ex_book_def ex_env_def)
  then show ?thesis
    using deleteReview_success [OF ex_Review_findById1 a] by (simp add: s1 h b)
qed

subsection \<open>The aggregates after a review write\<close>

text \<open>
  The scenario of the specification, on the value that the updater stores: ratings 5, 4
  and 3 give 4.0; 5 and 4 give 4.5; 5 and 2 give 3.5; none gives 0. A tie goes up:
  5, 4, 4 and 4 have the mean 4.25 and give 4.3.
\<close>

lemma mean_rating_scenario:
  "mean_rating_1dp ex_bid (ex_store0\<lparr>reviews := map (\<lambda>x. ex_review\<lparr>starRating := x\<rparr>) [5, 4, 3]\<rparr>) = 4"
  "mean_rating_1dp ex_bid (ex_store0\<lparr>reviews := map (\<lambda>x. ex_review\<lparr>starRating := x\<rparr>) [5, 4]\<rparr>)
     = 9 / 2"
  "mean_rating_1dp ex_bid (ex_store0\<lparr>reviews := map (\<lambda>x. ex_review\<lparr>starRating := x\<rparr>) [5, 2]\<rparr>)
     = 7 / 2"
  "mean_rating_1dp ex_bid (ex_store0\<lparr>reviews := []\<rparr>) = 0"
  "mean_rating_1dp ex_bid
     (ex_store0\<lparr>reviews := map (\<lambda>x. ex_review\<lparr>starRating := x\<rparr>) [5, 4, 4, 4]\<rparr>)
     = 43 / 10"
  by (simp_all add: mean_rating_1dp_def reviews_of_def ex_review_def round_def
      floor_eq_iff)

text \<open>
  Claim C1. When a review create, update or delete completes, the book of that review,
  if it is in the store, holds as \<^verbatim>\<open>communityRating\<close> the mean of the star ratings of
  all the reviews that reference it, rounded to one decimal place, and 0 when no review
  references it. After a create the book is in the store. "Completes" is the answer
  201 or 200 of the route; the arithmetic is the exact one of the model.
\<close>

theorem averageRating_after_review_write:
  "(req_bookId body = Some b \<and> createReview e nid u body s = (Inr r, s') \<longrightarrow>
      (\<exists>B. Book_findById b s' = Some B \<and> communityRating B = mean_rating_1dp b s')) \<and>
   (Review_findById rid s = Some orig \<and> updateReview e u rid body s = (Inr r, s') \<longrightarrow>
      (\<forall>B. Book_findById (reviewedBook orig) s' = Some B \<longrightarrow>
           communityRating B = mean_rating_1dp (reviewedBook orig) s')) \<and>
   (Review_findById rid s = Some orig \<and> deleteReview e u rid s = (Inr (), s') \<longrightarrow>
      (\<forall>B. Book_findById (reviewedBook orig) s' = Some B \<longrightarrow>
           communityRating B = mean_rating_1dp (reviewedBook orig) s'))"
proof (intro conjI impI allI)
  assume h: "req_bookId body = Some b \<and> createReview e nid u body s = (Inr r, s')"
  then obtain s1 where s': "s' = updateBookRating e b s1" and ex: "Book_findById b s1 \<noteq> None"
    using createReview_Inr by blast
  from ex obtain B where "Book_findById b s' = Some B"
    by (auto simp: s' Book_findById_updateBookRating)
  then show "\<exists>B. Book_findById b s' = Some B \<and> communityRating B = mean_rating_1dp b s'"
    using aggregates_after_updateBookRating(1) s' by blast
next
  fix B
  assume "Review_findById rid s = Some orig \<and> updateReview e u rid body s = (Inr r, s')"
    and "Book_findById (reviewedBook orig) s' = Some B"
  then show "communityRating B = mean_rating_1dp (reviewedBook orig) s'"
    using updateReview_Inr aggregates_after_updateBookRating(1) by blast
next
  fix B
  assume "Review_findById rid s = Some orig \<and> deleteReview e u rid s = (Inr (), s')"
    and "Book_findById (reviewedBook orig) s' = Some B"
  then show "communityRating B = mean_rating_1dp (reviewedBook orig) s'"
    using deleteReview_Inr aggregates_after_updateBookRating(1) by blast
qed


text \<open>The three writes on the small library: the averages 4, 2 and 0.\<close>

theorem averageRating_after_review_write_witness:
  "(req_bookId (ex_body 4) = Some ex_bid \<and>
    createReview ex_env ex_rid ex_reader (ex_body 4) ex_store0 = (Inr ex_review, ex_store1) \<and>
    (\<exists>B. Book_findById ex_bid ex_store1 = Some B \<and> communityRating B = 4 \<and>
         communityRating B = mean_rating_1dp ex_bid ex_store1)) \<and>
   (Review_findById ex_rid ex_store1 = Some ex_review \<and>
    updateReview ex_env ex_reader ex_rid (ex_patch 2) ex_store1
      = (Inr (ex_review\<lparr>starRating := 2\<rparr>), ex_store2) \<and>
    (\<exists>B. Book_findById ex_bid ex_store2 = Some B \<and> communityRating B = 2 \<and>
         communityRating B = mean_rating_1dp ex_bid ex_store2)) \<and>
   (deleteReview ex_env ex_reader ex_rid ex_store1 = (Inr (), ex_store3) \<and>
    (\<exists>B. Book_findById ex_bid ex_store3 = Some B \<and> communityRating B = 0 \<and>
         communityRating B = mean_rating_1dp ex_bid ex_store3))"
proof -
  have b: "req_bookId (ex_body 4) = Some ex_bid"
    by (simp add: ex_body_def)
  have rb: "reviewedBook ex_review = ex_bid"
    by (simp add: ex_review_def)
  have f2: "Book_findById ex_bid ex_store2
      = Some (ex_book\<lparr>communityRating := 2, reviewCount := 1, book_updatedAt := 2000\<rparr>)"
    by (simp add: Book_findById_def ex_store2_def ex_book_def)
  have f3: "Book_findById ex_bid ex_store3 = Some (ex_book\<lparr>book_updatedAt := 2000\<rparr>)"
    by (simp add: Book_findById_def ex_store3_def ex_book_def)
  have c0: "communityRating (ex_book\<lparr>book_updatedAt := 2000\<rparr>) = 0"
    by (simp add: ex_book_def)
  have "\<exists>B. Book_findById ex_bid ex_store1 = Some B \<and>
          communityRating B = mean_rating_1dp ex_bid ex_store1"
    by (rule averageRating_after_review_write
        [where body = "ex_body 4" and nid = ex_rid and u = ex_reader and e = ex_env
          and s = ex_store0 and r = ex_review, THEN conjunct1, THEN mp])
      (simp only: b ex_create simp_thms)
  then have p1: "\<exists>B. Book_findById ex_bid ex_store1 = Some B \<and> communityRating B = 4 \<and>
         communityRating B = mean_rating_1dp ex_bid ex_store1"
    by (simp add: ex_Book_findById1)
  have "\<forall>B. Book_findById (reviewedBook ex_review) ex_store2 = Some B \<longrightarrow>
          communityRating B = mean_rating_1dp (reviewedBook ex_review) ex_store2"
    by (rule averageRating_after_review_write
        [where body = "ex_patch 2" and rid = ex_rid and u = ex_reader and e = ex_env
          and s = ex_store1 and r = "ex_review\<lparr>starRating := 2\<rparr>",
          THEN conjunct2, THEN conjunct1, THEN mp])
      (simp only: ex_Review_findById1 ex_update simp_thms)
  then have p2: "\<exists>B. Book_findById ex_bid ex_store2 = Some B \<and> communityRating B = 2 \<and>
         communityRating B = mean_rating_1dp ex_bid ex_store2"
    by (simp add: rb f2)
  have "\<forall>B. Book_findById (reviewedBook ex_review) ex_store3 = Some B \<longrightarrow>
          communityRating B = mean_rating_1dp (reviewedBook ex_review) ex_store3"
    by (rule averageRating_after_review_write
        [where rid = ex_rid and u = ex_reader and e = ex_env and s = ex_store1,
          THEN conjunct2, THEN conjunct2, THEN mp])
      (simp only: ex_Review_findById1 ex_delete simp_thms)
  then have p3: "\<exists>B. Book_findById ex_bid ex_store3 = Some B \<and> communityRating B = 0 \<and>
         communityRating B = mean_rating_1dp ex_bid ex_store3"
    by (simp add: rb f3 c0)
  from b ex_create p1 ex_Review_findById1 ex_update p2 ex_delete p3 show ?thesis
    by (intro conjI)
qed

text \<open>
  Claim C2. When a review create, update or delete completes, the book of that review,
  if it is in the store, holds as \<^verbatim>\<open>reviewCount\<close> the number of reviews whose
  \<^verbatim>\<open>reviewedBook\<close> is its id.
\<close>

theorem reviewCount_after_review_write:
  "(req_bookId body = Some b \<and> createReview e nid u body s = (Inr r, s') \<longrightarrow>
      (\<exists>B. Book_findById b s' = Some B \<and> reviewCount B = length (reviews_of b s'))) \<and>
   (Review_findById rid s = Some orig \<and> updateReview e u rid body s = (Inr r, s') \<longrightarrow>
      (\<forall>B. Book_findById (reviewedBook orig) s' = Some B \<longrightarrow>
           reviewCount B = length (reviews_of (reviewedBook orig) s'))) \<and>
   (Review_findById rid s = Some orig \<and> deleteReview e u rid s = (Inr (), s') \<longrightarrow>
      (\<forall>B. Book_findById (reviewedBook orig) s' = Some B \<longrightarrow>
           reviewCount B = length (reviews_of (reviewedBook orig) s')))"
proof (intro conjI impI allI)
  assume h: "req_bookId body = Some b \<and> createReview e nid u body s = (Inr r, s')"
  then obtain s1 where s': "s' = updateBookRating e b s1" and ex: "Book_findById b s1 \<noteq> None"
    using createReview_Inr by blast
  from ex obtain B where "Book_findById b s' = Some B"
    by (auto simp: s' Book_findById_updateBookRating)
  then show "\<exists>B. Book_findById b s' = Some B \<and> reviewCount B = length (reviews_of b s')"
    using aggregates_after_updateBookRating(2) s' by blast
next
  fix B
  assume "Review_findById rid s = Some orig \<and> updateReview e u rid body s = (Inr r, s')"
    and "Book_findById (reviewedBook orig) s' = Some B"
  then show "reviewCount B = length (reviews_of (reviewedBook orig) s')"
    using updateReview_Inr aggregates_after_updateBookRating(2) by blast
next
  fix B
  assume "Review_findById rid s = Some orig \<and> deleteReview e u rid s = (Inr (), s')"
    and "Book_findById (reviewedBook orig) s' = Some B"
  then show "reviewCount B = length (reviews_of (reviewedBook orig) s')"
    using deleteReview_Inr aggregates_after_updateBookRating(2) by blast
qed

text \<open>The three writes on the small library: the counts 1, 1 and 0.\<close>

theorem reviewCount_after_review_write_witness:
  "(req_bookId (ex_body 4) = Some ex_bid \<and>
    createReview ex_env ex_rid ex_reader (ex_body 4) ex_store0 = (Inr ex_review, ex_store1) \<and>
    (\<exists>B. Book_findById ex_bid ex_store1 = Some B \<and> reviewCount B = 1 \<and>
         reviewCount B = length (reviews_of ex_bid ex_store1))) \<and>
   (Review_findById ex_rid ex_store1 = Some ex_review \<and>
    updateReview ex_env ex_reader ex_rid (ex_patch 2) ex_store1
      = (Inr (ex_review\<lparr>starRating := 2\<rparr>), ex_store2) \<and>
    (\<exists>B. Book_findById ex_bid ex_store2 = Some B \<and> reviewCount B = 1 \<and>
         reviewCount B = length (reviews_of ex_bid ex_store2))) \<and>
   (deleteReview ex_env ex_reader ex_rid ex_store1 = (Inr (), ex_store3) \<and>
    (\<exists>B. Book_findById ex_bid ex_store3 = Some B \<and> reviewCount B = 0 \<and>
         reviewCount B = length (reviews_of ex_bid ex_store3)))"
proof -
  have b: "req_bookId (ex_body 4) = Some ex_bid"
    by (simp add: ex_body_def)
  have rb: "reviewedBook ex_review = ex_bid"
    by (simp add: ex_review_def)
  have f2: "Book_findById ex_bid ex_store2
      = Some (ex_book\<lparr>communityRating := 2, reviewCount := 1, book_updatedAt := 2000\<rparr>)"
    by (simp add: Book_findById_def ex_store2_def ex_book_def)
  have f3: "Book_findById ex_bid ex_store3 = Some (ex_book\<lparr>book_updatedAt := 2000\<rparr>)"
    by (simp add: Book_findById_def ex_store3_def ex_book_def)
  have c0: "reviewCount (ex_book\<lparr>book_updatedAt := 2000\<rparr>) = 0"
    by (simp add: ex_book_def)
  have "\<exists>B. Book_findById ex_bid ex_store1 = Some B \<and>
          reviewCount B = length (reviews_of ex_bid ex_store1)"
    by (rule reviewCount_after_review_write
        [where body = "ex_body 4" and nid = ex_rid and u = ex_reader and e = ex_env
          and s = ex_store0 and r = ex_review, THEN conjunct1, THEN mp])
      (simp only: b ex_create simp_thms)
  then have p1: "\<exists>B. Book_findById ex_bid ex_store1 = Some B \<and> reviewCount B = 1 \<and>
         reviewCount B = length (reviews_of ex_bid ex_store1)"
    by (simp add: ex_Book_findById1)
  have "\<forall>B. Book_findById (reviewedBook ex_review) ex_store2 = Some B \<longrightarrow>
          reviewCount B = length (reviews_of (reviewedBook ex_review) ex_store2)"
    by (rule reviewCount_after_review_write
        [where body = "ex_patch 2" and rid = ex_rid and u = ex_reader and e = ex_env
          and s = ex_store1 and r = "ex_review\<lparr>starRating := 2\<rparr>",
          THEN conjunct2, THEN conjunct1, THEN mp])
      (simp only: ex_Review_findById1 ex_update simp_thms)
  then have p2: "\<exists>B. Book_findById ex_bid ex_store2 = Some B \<and> reviewCount B = 1 \<and>
         reviewCount B = length (reviews_of ex_bid ex_store2)"
    by (simp add: rb f2)
  have "\<forall>B. Book_findById (reviewedBook ex_review) ex_store3 = Some B \<longrightarrow>
          reviewCount B = length (reviews_of (reviewedBook ex_review) ex_store3)"
    by (rule reviewCount_after_review_write
        [where rid = ex_rid and u = ex_reader and e = ex_env and s = ex_store1,
          THEN conjunct2, THEN conjunct2, THEN mp])
      (simp only: ex_Review_findById1 ex_delete simp_thms)
  then have p3: "\<exists>B. Book_findById ex_bid ex_store3 = Some B \<and> reviewCount B = 0 \<and>
         reviewCount B = length (reviews_of ex_bid ex_store3)"
    by (simp add: rb f3 c0)
  from b ex_create p1 ex_Review_findById1 ex_update p2 ex_delete p3 show ?thesis
    by (intro conjI)
qed

subsection \<open>Deleting a book\<close>

lemma deleteBook_success:
  assumes "Book_findById bid s = Some book" and "sharedBy book = u"
  shows "deleteBook u bid s = (Inr (), Book_findByIdAndDelete bid s)"
  using assms by (simp add: deleteBook_def Review_deleteMany_bookId)

lemma reviews_deleteBook: "reviews (snd (deleteBook u bid s)) = reviews s"
  by (simp add: deleteBook_def Review_deleteMany_bookId Book_findByIdAndDelete_def
      split: option.splits)

text \<open>
  Claim C3 (the claim fails on the code). The route deletes with the filter
  \<^verbatim>\<open>{ bookId: req.params.id }\<close>, and no review document has a path \<^verbatim>\<open>bookId\<close>: the
  creator's delete removes the book of the small library and leaves its review, which
  still references the id of the book that is gone.
\<close>

theorem deleteBook_leaves_reviews_behind:
  "Book_findById ex_bid ex_store1 \<noteq> None \<and> reviews_of ex_bid ex_store1 = [ex_review] \<and>
   deleteBook ex_owner ex_bid ex_store1 = (Inr (), ex_orphaned) \<and>
   Book_findById ex_bid ex_orphaned = None \<and> reviews_of ex_bid ex_orphaned = [ex_review]"
proof -
  have o: "sharedBy (ex_book\<lparr>communityRating := 4, reviewCount := 1, book_updatedAt := 2000\<rparr>)
             = ex_owner"
    by (simp add: ex_book_def)
  have d: "Book_findByIdAndDelete ex_bid ex_store1 = ex_orphaned"
    by (simp add: Book_findByIdAndDelete_def ex_store1_def ex_orphaned_def ex_book_def)
  have "deleteBook ex_owner ex_bid ex_store1 = (Inr (), ex_orphaned)"
    using deleteBook_success [OF ex_Book_findById1 o] d by simp
  moreover have "Book_findById ex_bid ex_orphaned = None"
    by (simp add: Book_findById_def ex_orphaned_def)
  moreover have "reviews_of ex_bid ex_store1 = [ex_review]"
    "reviews_of ex_bid ex_orphaned = [ex_review]"
    by (simp_all add: reviews_of_def ex_store1_def ex_orphaned_def ex_review_def)
  ultimately show ?thesis
    by (simp add: ex_Book_findById1)
qed

subsection \<open>The two recomputations\<close>


lemma Book_pre_save_zero:
  "communityRating B = 0 \<Longrightarrow> communityRating (Book_pre_save B) = 0"
  by (simp add: Book_pre_save_def Let_def)

lemma reviewCount_pre_save: "reviewCount (Book_pre_save B) = reviewCount B"
  by (simp add: Book_pre_save_def Let_def)





subsection \<open>One review per user and book\<close>

lemma Review_save_Inr:
  assumes "Review_save e doc s = Inr (r, s1)"
  shows "reviews s1 = reviews s @ [r] \<and>
         \<not> list_ex (\<lambda>x. reviewedBook x = reviewedBook r \<and> reviewAuthor x = reviewAuthor r)
              (reviews s)"
  using assms
  by (auto simp: Review_save_def Let_def Review_post_hook_reviews list_ex_iff split: if_splits)

lemma createReview_outcome:
  obtains (invalid) "\<not> create_review_validators body"
      and "createReview e nid u body s = (Inl ValidationError, s)"
  | (cast) b where "create_review_validators body" and "req_bookId body = Some b"
      and "\<not> is_ObjectId b" and "createReview e nid u body s = (Inl ServerError, s)"
  | (missing) b where "create_review_validators body" and "req_bookId body = Some b"
      and "is_ObjectId b" and "Book_findById b s = None"
      and "createReview e nid u body s = (Inl NotFoundError, s)"
  | (duplicate) b where "create_review_validators body" and "req_bookId body = Some b"
      and "is_ObjectId b" and "Book_findById b s \<noteq> None" and "has_review b u s"
      and "createReview e nid u body s = (Inl DuplicateReviewError, s)"
  | (refused) b where "create_review_validators body" and "req_bookId body = Some b"
      and "\<not> has_review b u s" and "createReview e nid u body s = (Inl ServerError, s)"
      and "is_ObjectId b"
  | (ok) b x r s1 where "req_bookId body = Some b" and "req_rating body = Some x"
      and "\<not> has_review b u s"
      and "Review_save e (new_Review e nid b u x (san_trim (req_reviewText body))) s
             = Inr (r, s1)"
      and "createReview e nid u body s = (Inr r, updateBookRating e b s1)"
      and "is_ObjectId b"
proof (cases "create_review_validators body")
  case False
  then show ?thesis
    using invalid by (simp add: createReview_def)
next
  case v: True
  then obtain b x where bx: "req_bookId body = Some b" "req_rating body = Some x"
    by (auto simp: create_review_validators_def isMongoId_def isInt_def split: option.splits)
  show ?thesis
  proof (cases "is_ObjectId b")
    case False
    then show ?thesis
      using cast v bx by (simp add: createReview_def)
  next
    case oid: True
    show ?thesis
    proof (cases "Book_findById b s")
      case None
      then show ?thesis
        using missing v bx oid by (simp add: createReview_def)
    next
      case book: (Some book)
      show ?thesis
      proof (cases "Review_findOne [(''reviewedBook'', VId b), (''reviewAuthor'', VId u)] s")
        case (Some existing)
        then have "has_review b u s"
          using Review_findOne_book_author [of b u s] by simp
        moreover have "createReview e nid u body s = (Inl DuplicateReviewError, s)"
          using Some v bx oid book by (simp add: createReview_def)
        ultimately show ?thesis
          using duplicate v bx oid book by simp
      next
        case none: None
        then have nh: "\<not> has_review b u s"
          using Review_findOne_book_author [of b u s] by simp
        show ?thesis
        proof (cases "Review_save e (new_Review e nid b u x (san_trim (req_reviewText body))) s")
          case (Inl err)
          then have "createReview e nid u body s = (Inl ServerError, s)"
            using v bx oid book none by (simp add: createReview_def)
          then show ?thesis
            using refused v bx nh oid by simp
        next
          case (Inr p)
          obtain r s1 where p: "p = (r, s1)"
            by (cases p)
          have "createReview e nid u body s = (Inr r, updateBookRating e b s1)"
            using v bx oid book none Inr p by (simp add: createReview_def)
          then show ?thesis
            using ok bx nh Inr p oid by simp
        qed
      qed
    qed
  qed
qed

lemma reviews_createReview:
  "reviews (snd (createReview e nid u body s)) = reviews s \<or>
   (\<exists>r. reviews (snd (createReview e nid u body s)) = reviews s @ [r] \<and>
        \<not> list_ex (\<lambda>x. reviewedBook x = reviewedBook r \<and> reviewAuthor x = reviewAuthor r)
             (reviews s))"
proof (cases rule: createReview_outcome [of body e nid u s])
  case (ok b x r s1)
  have "reviews (snd (createReview e nid u body s)) = reviews s1"
    by (simp add: ok(5) reviews_updateBookRating)
  then show ?thesis
    using Review_save_Inr [OF ok(4)] by simp
qed simp_all

lemma pair_apply_updateData:
  "reviewedBook (apply_updateData e x c r) = reviewedBook r"
  "reviewAuthor (apply_updateData e x c r) = reviewAuthor r"
  by (simp_all add: apply_updateData_def Let_def split: option.splits)

lemma pairs_updateReview:
  "map (\<lambda>r. (reviewedBook r, reviewAuthor r)) (reviews (snd (updateReview e u rid body s)))
     = map (\<lambda>r. (reviewedBook r, reviewAuthor r)) (reviews s)"
proof -
  have "map (\<lambda>r. (reviewedBook r, reviewAuthor r))
          (update_first (\<lambda>r. review_id r = rid) (apply_updateData e x c) (reviews s))
        = map (\<lambda>r. (reviewedBook r, reviewAuthor r)) (reviews s)" for x c
    by (rule map_update_first) (simp add: pair_apply_updateData)
  then show ?thesis
    unfolding updateReview_def Review_findByIdAndUpdate_def
    by (auto simp: reviews_updateBookRating split: option.splits)
qed

lemma distinct_map_remove_first:
  "distinct (map f xs) \<Longrightarrow> distinct (map f (remove_first P xs))"
proof (induction xs)
  case Nil
  then show ?case by simp
next
  case (Cons x xs)
  have "set (remove_first P xs) \<subseteq> set xs"
    by (induction xs) auto
  with Cons show ?case by auto
qed

lemma reviews_deleteReview:
  "reviews (snd (deleteReview e u rid s)) = reviews s \<or>
   reviews (snd (deleteReview e u rid s)) = remove_first (\<lambda>r. review_id r = rid) (reviews s)"
  unfolding deleteReview_def Review_findByIdAndDelete_def Let_def
  by (auto simp: reviews_updateBookRating Review_post_hook_reviews split: option.splits)

lemma reviews_createBook: "reviews (snd (createBook e nid u body s)) = reviews s"
  unfolding createBook_def Book_insert_def Let_def
  by (auto split: option.splits if_splits)

lemma reviews_updateBook: "reviews (snd (updateBook e u bid body s)) = reviews s"
  unfolding updateBook_def Book_findByIdAndUpdate_def Let_def
  by (auto split: option.splits)

lemma one_review_step:
  assumes "one_review_per_user_per_book s"
  shows "one_review_per_user_per_book (step e req s)"
proof (cases req)
  case (CreateReview nid u body)
  from reviews_createReview [of e nid u body s] show ?thesis
  proof
    assume "reviews (snd (createReview e nid u body s)) = reviews s"
    then show ?thesis
      using assms by (simp add: CreateReview one_review_per_user_per_book_def)
  next
    assume "\<exists>r. reviews (snd (createReview e nid u body s)) = reviews s @ [r] \<and>
        \<not> list_ex (\<lambda>x. reviewedBook x = reviewedBook r \<and> reviewAuthor x = reviewAuthor r)
             (reviews s)"
    then obtain r where r: "reviews (snd (createReview e nid u body s)) = reviews s @ [r]"
      and n: "\<forall>x\<in>set (reviews s). \<not> (reviewedBook x = reviewedBook r \<and>
                                            reviewAuthor x = reviewAuthor r)"
      by (auto simp: list_ex_iff)
    from n have "(reviewedBook r, reviewAuthor r)
        \<notin> set (map (\<lambda>r. (reviewedBook r, reviewAuthor r)) (reviews s))"
      by force
    then show ?thesis
      using assms by (simp add: CreateReview one_review_per_user_per_book_def r)
  qed
next
  case (UpdateReview u rid body)
  show ?thesis
    using assms by (simp add: UpdateReview one_review_per_user_per_book_def pairs_updateReview)
next
  case (DeleteReview u rid)
  show ?thesis
    using reviews_deleteReview [of e u rid s] assms
    by (auto simp: DeleteReview one_review_per_user_per_book_def distinct_map_remove_first)
next
  case (CreateBook nid u body)
  show ?thesis
    using assms by (simp add: CreateBook one_review_per_user_per_book_def reviews_createBook)
next
  case (UpdateBook u bid body)
  show ?thesis
    using assms by (simp add: UpdateBook one_review_per_user_per_book_def reviews_updateBook)
next
  case (DeleteBook u bid)
  show ?thesis
    using assms by (simp add: DeleteBook one_review_per_user_per_book_def reviews_deleteBook)
qed

lemma one_review_run:
  "one_review_per_user_per_book s \<Longrightarrow> one_review_per_user_per_book (run reqs s)"
  by (induction reqs arbitrary: s) (auto simp: one_review_step)

lemma createReview_duplicate:
  assumes "has_review b u s" and "req_bookId body = Some b"
  shows "createReview e nid u body s =
           (Inl (if \<not> create_review_validators body then ValidationError
                 else if \<not> is_ObjectId b then ServerError
                 else if Book_findById b s = None then NotFoundError
                 else DuplicateReviewError), s)"
proof (cases rule: createReview_outcome [of body e nid u s])
  case invalid
  then show ?thesis by simp
next
  case (cast b')
  then show ?thesis using assms(2) by simp
next
  case (missing b')
  then show ?thesis using assms(2) by simp
next
  case (duplicate b')
  then show ?thesis using assms(2) by simp
next
  case (refused b')
  then show ?thesis using assms by simp
next
  case (ok b' x r s1)
  then show ?thesis using assms by simp
qed

text \<open>The book of the small library is created and deleted, each by its own route.\<close>

lemma ex_createBook:
  "createBook ex_env0 ex_bid ex_owner ex_book_body ex_empty = (Inr ex_book, ex_store0)"
proof -
  have v: "create_book_validators ex_env0 ex_book_body"
    by (simp add: create_book_validators_def ex_book_body_def ex_env0_def isLength_def
        san_trim_def trim_def is_space_def isIn_def route_genres_def isInt_def is_integer_def)
  have g: "req_genre ex_book_body = Some ''Fiction''" "req_publishedYear ex_book_body = Some 1965"
    by (simp_all add: ex_book_body_def)
  have n: "new_Book ex_env0 ex_bid ex_owner (san_trim (req_title ex_book_body))
             (san_trim (req_author ex_book_body)) (san_trim (req_description ex_book_body))
             ''Fiction'' 1965 = ex_book"
    by (simp add: new_Book_def ex_book_def ex_book_body_def ex_env0_def san_trim_def trim_def
        is_space_def)
  have z: "ex_book\<lparr>communityRating := 0, reviewCount := 0\<rparr> = ex_book"
    by (simp add: ex_book_def)
  have bv: "Book_validate ex_env0 ex_book"
    using ex_Book_validate unfolding z by (simp add: Book_validate_def valid_publicationYear_def
        ex_env_def ex_env0_def)
  have ps: "Book_pre_save ex_book = ex_book"
    using ex_Book_pre_save unfolding z .
  have ts: "ex_book\<lparr>book_createdAt := now ex_env0, book_updatedAt := now ex_env0\<rparr> = ex_book"
    by (simp add: ex_book_def ex_env0_def)
  have "Book_insert ex_env0 ex_book ex_empty = Inr (ex_book, ex_store0)"
    using bv by (simp add: Book_insert_def ps ts) (simp add: ex_empty_def ex_store0_def)
  then show ?thesis
    using v g by (simp add: createBook_def n)
qed

lemma ex_deleteBook: "deleteBook ex_owner ex_bid ex_store1 = (Inr (), ex_orphaned)"
proof -
  have o: "sharedBy (ex_book\<lparr>communityRating := 4, reviewCount := 1, book_updatedAt := 2000\<rparr>)
             = ex_owner"
    by (simp add: ex_book_def)
  have d: "Book_findByIdAndDelete ex_bid ex_store1 = ex_orphaned"
    by (simp add: Book_findByIdAndDelete_def ex_store1_def ex_orphaned_def ex_book_def)
  show ?thesis
    using deleteBook_success [OF ex_Book_findById1 o] d by simp
qed

lemma ex_validators_any:
  "create_review_validators (ex_body 5)" "\<not> create_review_validators (ex_body 9)"
  by (simp_all add: create_review_validators_def ex_body_def isMongoId_def isHexadecimal_def
      ex_bid_def is_hex_def isInt_def is_integer_def isLength_def san_trim_def trim_def
      is_space_def)

lemma Review_save_duplicate:
  assumes "has_review (reviewedBook doc) (reviewAuthor doc) s"
  shows "\<exists>err. Review_save e doc s = Inl err"
    and "Review_validate s doc \<Longrightarrow> Review_save e doc s = Inl DuplicateKey"
proof -
  have "list_ex (\<lambda>r. review_id r = review_id d \<or>
                      (reviewedBook r = reviewedBook doc \<and> reviewAuthor r = reviewAuthor doc))
          (reviews s)" for d :: review
    using assms by (auto simp: has_review_def list_ex_iff)
  then have d: "list_ex (\<lambda>r. review_id r = review_id doc \<or>
                      (reviewedBook r = reviewedBook doc \<and> reviewAuthor r = reviewAuthor doc))
          (reviews s)" .
  have k: "reviewedBook (Review_pre_save e doc) = reviewedBook doc"
    "reviewAuthor (Review_pre_save e doc) = reviewAuthor doc"
    "review_id (Review_pre_save e doc) = review_id doc"
    by (simp_all add: Review_pre_save_def Let_def)
  show "Review_validate s doc \<Longrightarrow> Review_save e doc s = Inl DuplicateKey"
    using d by (simp add: Review_save_def Let_def k)
  then show "\<exists>err. Review_save e doc s = Inl err"
    by (cases "Review_validate s doc") (auto simp: Review_save_def)
qed

text \<open>
  Claim C5, as stated, fails on the code: a createReview for a pair that has a review
  is not always answered with DuplicateReviewError, because the route checks the body
  and the book first. On the small library with its review, the reader's second create
  with the rating 9 is answered with ValidationError. And in the library that the three
  requests create book, create review, delete book leave behind, where the review has
  outlived its book, the reader's second create with a valid body is answered with
  NotFoundError.
\<close>

theorem createReview_duplicate_answers_other_error:
  "has_review ex_bid ex_reader ex_store1 \<and> req_bookId (ex_body 9) = Some ex_bid \<and>
   createReview ex_env ''64b0000000000000000000c2'' ex_reader (ex_body 9) ex_store1
     = (Inl ValidationError, ex_store1) \<and>
   run [(ex_env0, CreateBook ex_bid ex_owner ex_book_body),
        (ex_env, CreateReview ex_rid ex_reader (ex_body 4)),
        (ex_env, DeleteBook ex_owner ex_bid)] ex_empty = ex_orphaned \<and>
   has_review ex_bid ex_reader ex_orphaned \<and> req_bookId (ex_body 5) = Some ex_bid \<and>
   create_review_validators (ex_body 5) \<and>
   createReview ex_env ''64b0000000000000000000c2'' ex_reader (ex_body 5) ex_orphaned
     = (Inl NotFoundError, ex_orphaned)"
proof -
  have h1: "has_review ex_bid ex_reader ex_store1"
    by (simp add: has_review_def ex_store1_def ex_review_def)
  have h2: "has_review ex_bid ex_reader ex_orphaned"
    by (simp add: has_review_def ex_orphaned_def ex_review_def)
  have b: "req_bookId (ex_body 9) = Some ex_bid" "req_bookId (ex_body 5) = Some ex_bid"
    by (simp_all add: ex_body_def)
  have n: "Book_findById ex_bid ex_orphaned = None"
    by (simp add: Book_findById_def ex_orphaned_def)
  have c1: "createReview ex_env ''64b0000000000000000000c2'' ex_reader (ex_body 9) ex_store1
     = (Inl ValidationError, ex_store1)"
    using createReview_duplicate [OF h1 b(1)] ex_validators_any(2) by simp
  have c2: "createReview ex_env ''64b0000000000000000000c2'' ex_reader (ex_body 5) ex_orphaned
     = (Inl NotFoundError, ex_orphaned)"
    using createReview_duplicate [OF h2 b(2)] ex_validators_any(1) ex_bid_ObjectId n by simp
  have r: "run [(ex_env0, CreateBook ex_bid ex_owner ex_book_body),
        (ex_env, CreateReview ex_rid ex_reader (ex_body 4)),
        (ex_env, DeleteBook ex_owner ex_bid)] ex_empty = ex_orphaned"
    by (simp add: ex_createBook ex_create ex_deleteBook)
  from h1 b(1) c1 r h2 b(2) ex_validators_any(1) c2 show ?thesis
    by (intro conjI)
qed

text \<open>
  Claim C5, amended. No request of the server breaks "at most one review per (book,
  user)": it holds after any run that starts where it holds, so in every state reached
  from an empty library. A createReview for a pair that has a review inserts nothing,
  the store is as before, and it fails: with DuplicateReviewError (the answer "You have
  already reviewed this book") when the body passes the request validators and the book
  exists, and otherwise with the error of the earlier check that fails, which is
  ValidationError for the body, the 500 of an id that is no ObjectId, or NotFoundError
  when the book is not there. Under the lookup of the route, the insert itself refuses
  such a pair: \<^verbatim>\<open>review.save()\<close> fails, with the duplicate-key error of the unique
  index when the document is valid.
\<close>

theorem one_review_per_user_per_book_enforced:
  "(one_review_per_user_per_book s \<longrightarrow> one_review_per_user_per_book (run reqs s)) \<and>
   one_review_per_user_per_book (run reqs \<lparr>books = [], reviews = [], users = us\<rparr>) \<and>
   (has_review b u s \<and> req_bookId body = Some b \<longrightarrow>
      createReview e nid u body s =
        (Inl (if \<not> create_review_validators body then ValidationError
              else if \<not> is_ObjectId b then ServerError
              else if Book_findById b s = None then NotFoundError
              else DuplicateReviewError), s)) \<and>
   (has_review (reviewedBook doc) (reviewAuthor doc) s \<longrightarrow>
      (\<exists>err. Review_save e doc s = Inl err) \<and>
      (Review_validate s doc \<longrightarrow> Review_save e doc s = Inl DuplicateKey))"
proof (intro conjI impI)
  show "one_review_per_user_per_book (run reqs \<lparr>books = [], reviews = [], users = us\<rparr>)"
    by (rule one_review_run) (simp add: one_review_per_user_per_book_def)
next
  assume "one_review_per_user_per_book s"
  then show "one_review_per_user_per_book (run reqs s)"
    by (rule one_review_run)
next
  assume "has_review b u s \<and> req_bookId body = Some b"
  then have h: "has_review b u s" "req_bookId body = Some b"
    by simp_all
  show "createReview e nid u body s =
        (Inl (if \<not> create_review_validators body then ValidationError
              else if \<not> is_ObjectId b then ServerError
              else if Book_findById b s = None then NotFoundError
              else DuplicateReviewError), s)"
    by (rule createReview_duplicate [OF h])
next
  assume h: "has_review (reviewedBook doc) (reviewAuthor doc) s"
  then show "\<exists>err. Review_save e doc s = Inl err"
    by (rule Review_save_duplicate(1))
  show "Review_save e doc s = Inl DuplicateKey" if "Review_validate s doc"
    using h that by (rule Review_save_duplicate(2))
qed

text \<open>The reader of the small library reviews the book, then tries a second time:
  with a valid body, with the rating 9, and once more after the book was deleted.\<close>

theorem one_review_per_user_per_book_enforced_witness:
  "(one_review_per_user_per_book ex_store0 \<and>
    run [(ex_env, CreateReview ex_rid ex_reader (ex_body 4))] ex_store0 = ex_store1 \<and>
    one_review_per_user_per_book ex_store1) \<and>
   (has_review ex_bid ex_reader ex_store1 \<and> req_bookId (ex_body 5) = Some ex_bid \<and>
    create_review_validators (ex_body 5) \<and> is_ObjectId ex_bid \<and>
    Book_findById ex_bid ex_store1 \<noteq> None \<and>
    createReview ex_env ''64b0000000000000000000c2'' ex_reader (ex_body 5) ex_store1
      = (Inl DuplicateReviewError, ex_store1)) \<and>
   (\<not> create_review_validators (ex_body 9) \<and>
    createReview ex_env ''64b0000000000000000000c2'' ex_reader (ex_body 9) ex_store1
      = (Inl ValidationError, ex_store1)) \<and>
   (has_review ex_bid ex_reader ex_orphaned \<and> Book_findById ex_bid ex_orphaned = None \<and>
    createReview ex_env ''64b0000000000000000000c2'' ex_reader (ex_body 5) ex_orphaned
      = (Inl NotFoundError, ex_orphaned)) \<and>
   (has_review (reviewedBook ex_review) (reviewAuthor ex_review) ex_store1 \<and>
    Review_validate ex_store1 ex_review \<and>
    Review_save ex_env ex_review ex_store1 = Inl DuplicateKey)"
proof -
  note inst = one_review_per_user_per_book_enforced
    [where b = ex_bid and u = ex_reader and e = ex_env
      and nid = "''64b0000000000000000000c2''" and doc = ex_review]
  have i0: "one_review_per_user_per_book ex_store0"
    by (simp add: one_review_per_user_per_book_def ex_store0_def)
  have r: "run [(ex_env, CreateReview ex_rid ex_reader (ex_body 4))] ex_store0 = ex_store1"
    by (simp add: ex_create)
  have "one_review_per_user_per_book
          (run [(ex_env, CreateReview ex_rid ex_reader (ex_body 4))] ex_store0)"
    by (rule one_review_per_user_per_book_enforced
        [where s = ex_store0, THEN conjunct1, THEN mp]) (rule i0)
  then have i1: "one_review_per_user_per_book ex_store1"
    by (simp only: r)
  have h: "has_review ex_bid ex_reader ex_store1"
    by (simp add: has_review_def ex_store1_def ex_review_def)
  have ho: "has_review ex_bid ex_reader ex_orphaned"
    by (simp add: has_review_def ex_orphaned_def ex_review_def)
  have b: "req_bookId (ex_body 5) = Some ex_bid" "req_bookId (ex_body 9) = Some ex_bid"
    by (simp_all add: ex_body_def)
  have f: "Book_findById ex_bid ex_store1 \<noteq> None"
    by (simp add: ex_Book_findById1)
  have n: "Book_findById ex_bid ex_orphaned = None"
    by (simp add: Book_findById_def ex_orphaned_def)
  have "createReview ex_env ''64b0000000000000000000c2'' ex_reader (ex_body 5) ex_store1 =
        (Inl (if \<not> create_review_validators (ex_body 5) then ValidationError
              else if \<not> is_ObjectId ex_bid then ServerError
              else if Book_findById ex_bid ex_store1 = None then NotFoundError
              else DuplicateReviewError), ex_store1)"
    by (rule inst [where s = ex_store1 and body = "ex_body 5",
          THEN conjunct2, THEN conjunct2, THEN conjunct1, THEN mp])
      (simp only: h b simp_thms)
  then have c5: "createReview ex_env ''64b0000000000000000000c2'' ex_reader (ex_body 5)
                   ex_store1 = (Inl DuplicateReviewError, ex_store1)"
    using ex_validators_any(1) ex_bid_ObjectId f by simp
  have "createReview ex_env ''64b0000000000000000000c2'' ex_reader (ex_body 9) ex_store1 =
        (Inl (if \<not> create_review_validators (ex_body 9) then ValidationError
              else if \<not> is_ObjectId ex_bid then ServerError
              else if Book_findById ex_bid ex_store1 = None then NotFoundError
              else DuplicateReviewError), ex_store1)"
    by (rule inst [where s = ex_store1 and body = "ex_body 9",
          THEN conjunct2, THEN conjunct2, THEN conjunct1, THEN mp])
      (simp only: h b simp_thms)
  then have c9: "createReview ex_env ''64b0000000000000000000c2'' ex_reader (ex_body 9)
                   ex_store1 = (Inl ValidationError, ex_store1)"
    using ex_validators_any(2) by simp
  have "createReview ex_env ''64b0000000000000000000c2'' ex_reader (ex_body 5) ex_orphaned =
        (Inl (if \<not> create_review_validators (ex_body 5) then ValidationError
              else if \<not> is_ObjectId ex_bid then ServerError
              else if Book_findById ex_bid ex_orphaned = None then NotFoundError
              else DuplicateReviewError), ex_orphaned)"
    by (rule inst [where s = ex_orphaned and body = "ex_body 5",
          THEN conjunct2, THEN conjunct2, THEN conjunct1, THEN mp])
      (simp only: ho b simp_thms)
  then have co: "createReview ex_env ''64b0000000000000000000c2'' ex_reader (ex_body 5)
                   ex_orphaned = (Inl NotFoundError, ex_orphaned)"
    using ex_validators_any(1) ex_bid_ObjectId n by simp
  have k: "reviewedBook ex_review = ex_bid" "reviewAuthor ex_review = ex_reader"
    by (simp_all add: ex_review_def)
  have w: "Review_validate ex_store1 ex_review"
    using ex_Review_validate f
    by (simp add: Review_validate_def k) (simp add: ex_store0_def ex_store1_def)
  have "(\<exists>err. Review_save ex_env ex_review ex_store1 = Inl err) \<and>
        (Review_validate ex_store1 ex_review \<longrightarrow>
           Review_save ex_env ex_review ex_store1 = Inl DuplicateKey)"
    by (rule inst [where s = ex_store1,
          THEN conjunct2, THEN conjunct2, THEN conjunct2, THEN mp])
      (simp only: k h)
  then have sv: "Review_save ex_env ex_review ex_store1 = Inl DuplicateKey"
    using w by simp
  from i0 r i1 h b(1) ex_validators_any(1) ex_bid_ObjectId f c5 ex_validators_any(2) c9
    ho n co w sv
  show ?thesis
    unfolding k by (intro conjI)
qed

subsection \<open>The recompute when the book is gone\<close>

lemma Book_findById_reviews_update: "Book_findById i (s\<lparr>reviews := rs\<rparr>) = Book_findById i s"
  by (simp add: Book_findById_def)

text \<open>
  Claim C6. When no book has the id, \<^verbatim>\<open>updateBookRating\<close> leaves the store as it is and
  raises nothing (\<^verbatim>\<open>findByIdAndUpdate\<close> finds no document), and so do the post hooks of
  the Review model (their \<^verbatim>\<open>if (book)\<close>). The author's delete of a review whose book is
  gone answers success and has removed the review; the author's update of such a review,
  with a patch that passes the request validators and the validators of the schema,
  answers success and has applied the patch. A create cannot meet this case within one
  request: the route answers 404 before it inserts when the book is missing.
\<close>

theorem recompute_without_book_is_noop:
  "(Book_findById b s = None \<longrightarrow> updateBookRating e b s = s) \<and>
   (Book_findById (reviewedBook d) s = None \<longrightarrow> Review_post_hook e d s = s) \<and>
   (Review_findById rid s = Some orig \<and> reviewAuthor orig = u \<and>
    Book_findById (reviewedBook orig) s = None \<longrightarrow>
      deleteReview e u rid s
        = (Inr (), s\<lparr>reviews := remove_first (\<lambda>r. review_id r = rid) (reviews s)\<rparr>)) \<and>
   (Review_findById rid s = Some orig \<and> reviewAuthor orig = u \<and>
    Book_findById (reviewedBook orig) s = None \<and> update_review_validators body \<and>
    (case truthy_str (map_option trim (req_reviewText body)) of
       None \<Rightarrow> True | Some c \<Rightarrow> valid_reviewContent (trim c)) \<longrightarrow>
      updateReview e u rid body s
        = (Inr (apply_updateData e (truthy_num (req_rating body))
                  (truthy_str (map_option trim (req_reviewText body))) orig),
           s\<lparr>reviews := update_first (\<lambda>r. review_id r = rid)
                           (apply_updateData e (truthy_num (req_rating body))
                              (truthy_str (map_option trim (req_reviewText body))))
                           (reviews s)\<rparr>))"
proof (intro conjI impI)
  show "updateBookRating e b s = s" if "Book_findById b s = None"
    using that by (rule updateBookRating_no_book)
  show "Review_post_hook e d s = s" if "Book_findById (reviewedBook d) s = None"
    using that by (rule Review_post_hook_no_book)
next
  assume h: "Review_findById rid s = Some orig \<and> reviewAuthor orig = u \<and>
    Book_findById (reviewedBook orig) s = None"
  let ?s1 = "s\<lparr>reviews := remove_first (\<lambda>r. review_id r = rid) (reviews s)\<rparr>"
  have n: "Book_findById (reviewedBook orig) ?s1 = None"
    using h by (simp add: Book_findById_reviews_update)
  have "deleteReview e u rid s
          = (Inr (), updateBookRating e (reviewedBook orig) (Review_post_hook e orig ?s1))"
    using h by (simp add: deleteReview_success)
  then show "deleteReview e u rid s = (Inr (), ?s1)"
    using n by (simp add: Review_post_hook_no_book updateBookRating_no_book)
next
  assume h: "Review_findById rid s = Some orig \<and> reviewAuthor orig = u \<and>
    Book_findById (reviewedBook orig) s = None \<and> update_review_validators body \<and>
    (case truthy_str (map_option trim (req_reviewText body)) of
       None \<Rightarrow> True | Some c \<Rightarrow> valid_reviewContent (trim c))"
  define upd where "upd = apply_updateData e (truthy_num (req_rating body))
                 (truthy_str (map_option trim (req_reviewText body)))"
  let ?s1 = "s\<lparr>reviews := update_first (\<lambda>r. review_id r = rid) upd (reviews s)\<rparr>"
  have n: "Book_findById (reviewedBook orig) ?s1 = None"
    using h by (simp add: Book_findById_reviews_update)
  have "updateReview e u rid body s = (Inr (upd orig), updateBookRating e (reviewedBook orig) ?s1)"
    using h by (intro updateReview_success) (simp_all add: upd_def)
  then show "updateReview e u rid body s
        = (Inr (apply_updateData e (truthy_num (req_rating body))
                  (truthy_str (map_option trim (req_reviewText body))) orig),
           s\<lparr>reviews := update_first (\<lambda>r. review_id r = rid)
                           (apply_updateData e (truthy_num (req_rating body))
                              (truthy_str (map_option trim (req_reviewText body))))
                           (reviews s)\<rparr>)"
    using n by (simp add: updateBookRating_no_book upd_def)
qed

text \<open>The library whose book is gone: its review is updated, and deleted, by its
  author.\<close>

theorem recompute_without_book_is_noop_witness:
  "Book_findById ex_bid ex_orphaned = None \<and>
   Review_findById ex_rid ex_orphaned = Some ex_review \<and> reviewAuthor ex_review = ex_reader \<and>
   updateBookRating ex_env ex_bid ex_orphaned = ex_orphaned \<and>
   Review_post_hook ex_env ex_review ex_orphaned = ex_orphaned \<and>
   deleteReview ex_env ex_reader ex_rid ex_orphaned = (Inr (), ex_orphaned\<lparr>reviews := []\<rparr>) \<and>
   update_review_validators (ex_patch 2) \<and>
   updateReview ex_env ex_reader ex_rid (ex_patch 2) ex_orphaned
     = (Inr (ex_review\<lparr>starRating := 2\<rparr>),
        ex_orphaned\<lparr>reviews := [ex_review\<lparr>starRating := 2\<rparr>]\<rparr>)"
proof -
  note inst = recompute_without_book_is_noop
    [where b = ex_bid and s = ex_orphaned and e = ex_env and d = ex_review and rid = ex_rid
      and orig = ex_review and u = ex_reader and body = "ex_patch 2"]
  have k: "reviewedBook ex_review = ex_bid" and a: "reviewAuthor ex_review = ex_reader"
    by (simp_all add: ex_review_def)
  have n: "Book_findById ex_bid ex_orphaned = None"
    by (simp add: Book_findById_def ex_orphaned_def)
  have f: "Review_findById ex_rid ex_orphaned = Some ex_review"
    by (simp add: Review_findById_def ex_orphaned_def ex_review_def)
  have v: "update_review_validators (ex_patch 2)"
    by (simp add: update_review_validators_def ex_patch_def optional_def isInt_def
        is_integer_def)
  have c: "case truthy_str (map_option trim (req_reviewText (ex_patch 2))) of
             None \<Rightarrow> True | Some c \<Rightarrow> valid_reviewContent (trim c)"
    by (simp add: ex_patch_def truthy_str_def)
  have u: "apply_updateData ex_env (truthy_num (req_rating (ex_patch 2)))
             (truthy_str (map_option trim (req_reviewText (ex_patch 2)))) ex_review
           = ex_review\<lparr>starRating := 2\<rparr>"
    by (simp add: apply_updateData_def ex_patch_def truthy_num_def truthy_str_def
        ex_review_def ex_env_def)
  have p1: "updateBookRating ex_env ex_bid ex_orphaned = ex_orphaned"
    by (rule inst [THEN conjunct1, THEN mp]) (rule n)
  have p2: "Review_post_hook ex_env ex_review ex_orphaned = ex_orphaned"
    by (rule inst [THEN conjunct2, THEN conjunct1, THEN mp]) (simp only: k n)
  have "deleteReview ex_env ex_reader ex_rid ex_orphaned
          = (Inr (), ex_orphaned\<lparr>reviews := remove_first (\<lambda>r. review_id r = ex_rid)
                                              (reviews ex_orphaned)\<rparr>)"
    by (rule inst [THEN conjunct2, THEN conjunct2, THEN conjunct1, THEN mp])
      (simp only: f a k n simp_thms)
  then have p3: "deleteReview ex_env ex_reader ex_rid ex_orphaned
          = (Inr (), ex_orphaned\<lparr>reviews := []\<rparr>)"
    by (simp add: ex_orphaned_def ex_review_def)
  have "updateReview ex_env ex_reader ex_rid (ex_patch 2) ex_orphaned
        = (Inr (apply_updateData ex_env (truthy_num (req_rating (ex_patch 2)))
                  (truthy_str (map_option trim (req_reviewText (ex_patch 2)))) ex_review),
           ex_orphaned\<lparr>reviews := update_first (\<lambda>r. review_id r = ex_rid)
                           (apply_updateData ex_env (truthy_num (req_rating (ex_patch 2)))
                              (truthy_str (map_option trim (req_reviewText (ex_patch 2)))))
                           (reviews ex_orphaned)\<rparr>)"
    by (rule inst [THEN conjunct2, THEN conjunct2, THEN conjunct2, THEN mp])
      (simp only: f a k n v c simp_thms)
  then have p4: "updateReview ex_env ex_reader ex_rid (ex_patch 2) ex_orphaned
     = (Inr (ex_review\<lparr>starRating := 2\<rparr>),
        ex_orphaned\<lparr>reviews := [ex_review\<lparr>starRating := 2\<rparr>]\<rparr>)"
    using u by (simp add: ex_orphaned_def) (simp add: ex_review_def)
  from n f a p1 p2 p3 v p4 show ?thesis
    by (intro conjI)
qed

subsection \<open>Request validation of a new review\<close>









text \<open>
  What the amended claim leaves open: a text of 1 to 9 characters passes the request
  validators, and the schema of the Review model (\<^verbatim>\<open>minlength: 10\<close>) then refuses it
  inside \<^verbatim>\<open>review.save()\<close>; the route answers 500 and nothing is stored.
\<close>

lemma createReview_short_text:
  "create_review_validators ((ex_body 4)\<lparr>req_reviewText := Some ''ok''\<rparr>) \<and>
   createReview ex_env ex_rid ex_reader ((ex_body 4)\<lparr>req_reviewText := Some ''ok''\<rparr>) ex_store0
     = (Inl ServerError, ex_store0)"
proof -
  let ?body = "(ex_body 4)\<lparr>req_reviewText := Some ''ok''\<rparr>"
  have v: "create_review_validators ?body"
    by (simp add: create_review_validators_def ex_body_def isMongoId_def isHexadecimal_def
        ex_bid_def is_hex_def isInt_def is_integer_def isLength_def san_trim_def trim_def
        is_space_def)
  have b: "req_bookId ?body = Some ex_bid" "req_rating ?body = Some 4"
    by (simp_all add: ex_body_def)
  have t: "san_trim (Some ''ok'') = ''ok''"
    by (simp add: san_trim_def trim_def is_space_def)
  have n: "Review_findOne [(''reviewedBook'', VId ex_bid), (''reviewAuthor'', VId ex_reader)]
             ex_store0 = None"
    by (simp add: Review_findOne_def ex_store0_def)
  have "\<not> valid_reviewContent (reviewContent (new_Review ex_env ex_rid ex_bid ex_reader 4 ''ok''))"
    by (simp add: new_Review_def valid_reviewContent_def trim_def is_space_def)
  then have "Review_save ex_env (new_Review ex_env ex_rid ex_bid ex_reader 4 ''ok'') ex_store0
               = Inl ValidationFailed"
    by (simp add: Review_save_def Review_validate_def)
  then have "createReview ex_env ex_rid ex_reader ?body ex_store0 = (Inl ServerError, ex_store0)"
    using v b n ex_Book_findById0 by (simp add: createReview_def t)
  with v show ?thesis
    by (rule conjI)
qed

subsection \<open>Writes by someone who is not the author\<close>

text \<open>
  Claim C8, as stated, fails on the code: the owner of the book is not the author of
  the review of the small library, and the owner's update of it with the rating 9 is
  answered with ValidationError, not with ForbiddenError: the validators of the route
  run before the handler reads the review.
\<close>

theorem updateReview_non_author_invalid_patch:
  "Review_findById ex_rid ex_store1 = Some ex_review \<and> reviewAuthor ex_review \<noteq> ex_owner \<and>
   updateReview ex_env ex_owner ex_rid (ex_patch 9) ex_store1 = (Inl ValidationError, ex_store1)"
proof -
  have "reviewAuthor ex_review \<noteq> ex_owner"
    by (simp add: ex_review_def ex_reader_def ex_owner_def)
  moreover have "\<not> update_review_validators (ex_patch 9)"
    by (simp add: update_review_validators_def ex_patch_def optional_def isInt_def)
  then have "updateReview ex_env ex_owner ex_rid (ex_patch 9) ex_store1
               = (Inl ValidationError, ex_store1)"
    by (simp add: updateReview_def)
  ultimately show ?thesis
    using ex_Review_findById1 by (intro conjI)
qed

text \<open>
  Claim C8, amended. For a review that exists and a requester who is not its author,
  deleteReview answers ForbiddenError; updateReview answers ForbiddenError when the patch
  passes the request validators and ValidationError when it does not; in each case the
  store is as before, so the review and the aggregates of its book are unchanged.
\<close>

theorem non_author_cannot_write_review:
  "Review_findById rid s = Some orig \<and> reviewAuthor orig \<noteq> u \<longrightarrow>
     deleteReview e u rid s = (Inl ForbiddenError, s) \<and>
     updateReview e u rid body s
       = (Inl (if update_review_validators body then ForbiddenError else ValidationError), s)"
  by (simp add: deleteReview_def updateReview_def)

text \<open>The owner of the book against the reader's review.\<close>

theorem non_author_cannot_write_review_witness:
  "Review_findById ex_rid ex_store1 = Some ex_review \<and> reviewAuthor ex_review \<noteq> ex_owner \<and>
   update_review_validators (ex_patch 2) \<and>
   deleteReview ex_env ex_owner ex_rid ex_store1 = (Inl ForbiddenError, ex_store1) \<and>
   updateReview ex_env ex_owner ex_rid (ex_patch 2) ex_store1 = (Inl ForbiddenError, ex_store1)"
proof -
  have a: "reviewAuthor ex_review \<noteq> ex_owner"
    by (simp add: ex_review_def ex_reader_def ex_owner_def)
  have v: "update_review_validators (ex_patch 2)"
    by (simp add: update_review_validators_def ex_patch_def optional_def isInt_def
        is_integer_def)
  have "deleteReview ex_env ex_owner ex_rid ex_store1 = (Inl ForbiddenError, ex_store1) \<and>
     updateReview ex_env ex_owner ex_rid (ex_patch 2) ex_store1
       = (Inl (if update_review_validators (ex_patch 2) then ForbiddenError
               else ValidationError), ex_store1)"
    by (rule non_author_cannot_write_review
        [where rid = ex_rid and s = ex_store1 and orig = ex_review and u = ex_owner
          and e = ex_env and body = "ex_patch 2", THEN mp])
      (simp only: ex_Review_findById1 a simp_thms)
  then show ?thesis
    using ex_Review_findById1 a v by simp
qed

subsection \<open>What the recompute writes\<close>

lemma list_all2_update_first:
  assumes "\<And>x. R x x" and "\<And>x. P x \<Longrightarrow> R x (f x)"
  shows "list_all2 R xs (update_first P f xs)"
  by (induction xs) (auto simp: assms list_all2_refl)

text \<open>
  Claim C9, as stated, fails on the code: the Book schema has \<^verbatim>\<open>timestamps: true\<close>, so
  the \<^verbatim>\<open>findByIdAndUpdate\<close> of the recompute also sets \<^verbatim>\<open>updatedAt\<close>. The book of the
  small library, which nobody reviewed, keeps its aggregates 0 and 0 in the recompute at
  time 2000, and its \<^verbatim>\<open>updatedAt\<close> goes from 1000 to 2000.
\<close>

theorem updateBookRating_sets_updatedAt:
  "Book_findById ex_bid ex_store0 = Some ex_book \<and> book_updatedAt ex_book = 1000 \<and>
   Book_findById ex_bid (updateBookRating ex_env ex_bid ex_store0)
     = Some (ex_book\<lparr>book_updatedAt := 2000\<rparr>) \<and>
   ex_book\<lparr>book_updatedAt := 2000\<rparr> \<noteq> ex_book"
proof -
  have m: "mean_rating_1dp ex_bid ex_store0 = 0" "length (reviews_of ex_bid ex_store0) = 0"
    by (simp_all add: mean_rating_1dp_def reviews_of_def ex_store0_def)
  have "Book_findById ex_bid (updateBookRating ex_env ex_bid ex_store0)
     = Some (ex_book\<lparr>book_updatedAt := 2000\<rparr>)"
    unfolding Book_findById_updateBookRating m ex_Book_findById0
    by (simp add: ex_book_def ex_env_def)
  moreover have "book_updatedAt ex_book = 1000" "ex_book\<lparr>book_updatedAt := 2000\<rparr> \<noteq> ex_book"
    by (simp_all add: ex_book_def)
  ultimately show ?thesis
    using ex_Book_findById0 by (intro conjI)
qed

text \<open>
  Claim C9, amended. The recompute for a book id leaves the reviews and the users as
  they are, and the books in their places; a book with another id is unchanged, and
  every book differs from what it was at most in \<^verbatim>\<open>communityRating\<close>, \<^verbatim>\<open>reviewCount\<close>
  and the timestamp \<^verbatim>\<open>updatedAt\<close>.
\<close>

theorem updateBookRating_frame:
  "reviews (updateBookRating e b s) = reviews s \<and>
   users (updateBookRating e b s) = users s \<and>
   list_all2 (\<lambda>B B'. (book_id B \<noteq> b \<longrightarrow> B' = B) \<and> same_but_aggregates B B')
     (books s) (books (updateBookRating e b s))"
proof (intro conjI)
  show "list_all2 (\<lambda>B B'. (book_id B \<noteq> b \<longrightarrow> B' = B) \<and> same_but_aggregates B B')
     (books s) (books (updateBookRating e b s))"
    unfolding updateBookRating_eq Book_findByIdAndUpdate_def
    by (simp add: list_all2_update_first same_but_aggregates_def)
qed (rule reviews_updateBookRating users_updateBookRating)+

text \<open>Two books and a review of the first: the second book is untouched.\<close>

theorem updateBookRating_frame_witness:
  "book_id ex_other_book \<noteq> ex_bid \<and>
   updateBookRating ex_env ex_bid ex_two_books
     = ex_two_books\<lparr>books := [ex_book\<lparr>communityRating := 4, reviewCount := 1,
                                       book_updatedAt := 2000\<rparr>, ex_other_book]\<rparr> \<and>
   list_all2 (\<lambda>B B'. (book_id B \<noteq> ex_bid \<longrightarrow> B' = B) \<and> same_but_aggregates B B')
     [ex_book, ex_other_book]
     [ex_book\<lparr>communityRating := 4, reviewCount := 1, book_updatedAt := 2000\<rparr>, ex_other_book]"
proof -
  have i: "book_id ex_other_book \<noteq> ex_bid"
    by (simp add: ex_other_book_def ex_bid_def)
  have m: "mean_rating_1dp ex_bid ex_two_books = 4" "length (reviews_of ex_bid ex_two_books) = 1"
    by (simp_all add: mean_rating_1dp_def reviews_of_def ex_two_books_def ex_review_def)
  have u: "updateBookRating ex_env ex_bid ex_two_books
     = ex_two_books\<lparr>books := [ex_book\<lparr>communityRating := 4, reviewCount := 1,
                                       book_updatedAt := 2000\<rparr>, ex_other_book]\<rparr>"
    unfolding updateBookRating_eq m
    by (simp add: Book_findByIdAndUpdate_def ex_two_books_def ex_book_def ex_env_def)
  have "list_all2 (\<lambda>B B'. (book_id B \<noteq> ex_bid \<longrightarrow> B' = B) \<and> same_but_aggregates B B')
     (books ex_two_books) (books (updateBookRating ex_env ex_bid ex_two_books))"
    by (rule updateBookRating_frame [THEN conjunct2, THEN conjunct2])
  then have "list_all2 (\<lambda>B B'. (book_id B \<noteq> ex_bid \<longrightarrow> B' = B) \<and> same_but_aggregates B B')
     [ex_book, ex_other_book]
     [ex_book\<lparr>communityRating := 4, reviewCount := 1, book_updatedAt := 2000\<rparr>, ex_other_book]"
    unfolding u by (simp add: ex_two_books_def)
  with i u show ?thesis
    by (intro conjI)
qed

subsection \<open>The book routes and the aggregates\<close>

lemma createBook_outcome:
  obtains (invalid) "createBook e nid u body s = (Inl ValidationError, s)"
  | (refused) "createBook e nid u body s = (Inl ServerError, s)"
  | (created) doc where "communityRating doc = 0" and "reviewCount doc = 0"
      and "createBook e nid u body s = (Inr doc, s\<lparr>books := books s @ [doc]\<rparr>)"
proof (cases "create_book_validators e body")
  case False
  then show ?thesis
    using invalid by (simp add: createBook_def)
next
  case v: True
  then obtain g y where gy: "req_genre body = Some g" "req_publishedYear body = Some y"
    by (auto simp: create_book_validators_def isIn_def isInt_def split: option.splits)
  define nb where "nb = new_Book e nid u (san_trim (req_title body)) (san_trim (req_author body))
                       (san_trim (req_description body)) g y"
  define doc where "doc = (Book_pre_save nb)\<lparr>book_createdAt := now e, book_updatedAt := now e\<rparr>"
  have z: "communityRating doc = 0" "reviewCount doc = 0"
    by (simp_all add: doc_def Book_pre_save_zero reviewCount_pre_save nb_def new_Book_def)
  have c: "createBook e nid u body s =
             (case Book_insert e nb s of Inl err \<Rightarrow> (Inl ServerError, s)
              | Inr (book, s1) \<Rightarrow> (Inr book, s1))"
    using v gy by (simp add: createBook_def nb_def)
  show ?thesis
  proof (cases "Book_validate e nb \<and> \<not> list_ex (\<lambda>b. book_id b = book_id doc) (books s)")
    case True
    then have "Book_insert e nb s = Inr (doc, s\<lparr>books := books s @ [doc]\<rparr>)"
      by (simp add: Book_insert_def doc_def [symmetric])
    then show ?thesis
      using created z c by simp
  next
    case False
    then have "\<exists>err. Book_insert e nb s = Inl err"
      by (auto simp: Book_insert_def doc_def [symmetric])
    then show ?thesis
      using refused c by auto
  qed
qed

lemma aggregates_updateBook:
  "map (\<lambda>B. (book_id B, communityRating B, reviewCount B))
     (books (snd (updateBook e u bid body s)))
   = map (\<lambda>B. (book_id B, communityRating B, reviewCount B)) (books s)"
proof -
  have k: "(\<lambda>B. (book_id B, communityRating B, reviewCount B))
             ((apply_book_updateData t a d g y B)\<lparr>book_updatedAt := n\<rparr>)
           = (\<lambda>B. (book_id B, communityRating B, reviewCount B)) B" for t a d g y B n
    by (simp add: apply_book_updateData_def Let_def split: option.splits)
  have "map (\<lambda>B. (book_id B, communityRating B, reviewCount B))
          (books (Book_findByIdAndUpdate e bid (apply_book_updateData t a d g y) s))
        = map (\<lambda>B. (book_id B, communityRating B, reviewCount B)) (books s)" for t a d g y
    unfolding Book_findByIdAndUpdate_def using k by (simp add: map_update_first)
  then show ?thesis
    unfolding updateBook_def Let_def by (simp split: option.splits)
qed

text \<open>
  Claim C10. POST /api/books and PUT /api/books/:id never write an aggregate from the
  request: a created book has \<^verbatim>\<open>communityRating\<close> 0 and \<^verbatim>\<open>reviewCount\<close> 0 and is added
  after the books that were there, which stay as they are (a create that fails changes
  nothing); an update leaves the id and the two aggregates of every book as they were;
  and neither route depends on what the body holds besides title, author, description,
  genre and publishedYear.
\<close>

theorem book_routes_never_set_aggregates:
  "(createBook e nid u body s = (Inr B, s') \<longrightarrow>
      communityRating B = 0 \<and> reviewCount B = 0 \<and> books s' = books s @ [B]) \<and>
   (createBook e nid u body s = (Inl err, s') \<longrightarrow> s' = s) \<and>
   map (\<lambda>B. (book_id B, communityRating B, reviewCount B))
     (books (snd (updateBook e u bid body s)))
     = map (\<lambda>B. (book_id B, communityRating B, reviewCount B)) (books s) \<and>
   createBook e nid u (body\<lparr>req_other := other\<rparr>) s = createBook e nid u body s \<and>
   updateBook e u bid (body\<lparr>req_other := other\<rparr>) s = updateBook e u bid body s"
proof (intro conjI)
  show "createBook e nid u body s = (Inr B, s') \<longrightarrow>
      communityRating B = 0 \<and> reviewCount B = 0 \<and> books s' = books s @ [B]"
    by (cases rule: createBook_outcome [of e nid u body s]) auto
  show "createBook e nid u body s = (Inl err, s') \<longrightarrow> s' = s"
    by (cases rule: createBook_outcome [of e nid u body s]) auto
  show "map (\<lambda>B. (book_id B, communityRating B, reviewCount B))
     (books (snd (updateBook e u bid body s)))
     = map (\<lambda>B. (book_id B, communityRating B, reviewCount B)) (books s)"
    by (rule aggregates_updateBook)
  show "createBook e nid u (body\<lparr>req_other := other\<rparr>) s = createBook e nid u body s"
    by (simp add: createBook_def create_book_validators_def cong: option.case_cong)
  show "updateBook e u bid (body\<lparr>req_other := other\<rparr>) s = updateBook e u bid body s"
    by (simp add: updateBook_def update_book_validators_def Let_def
        cong: option.case_cong if_cong)
qed

text \<open>The book of the small library is created from a body that also carries
  \<^verbatim>\<open>communityRating: 5\<close> and \<^verbatim>\<open>reviewCount: 99\<close>; the same body without a genre
  is refused.\<close>

theorem book_routes_never_set_aggregates_witness:
  "req_other ex_book_body ''communityRating'' = Some (VNum 5) \<and>
   req_other ex_book_body ''reviewCount'' = Some (VNum 99) \<and>
   createBook ex_env0 ex_bid ex_owner ex_book_body ex_empty = (Inr ex_book, ex_store0) \<and>
   communityRating ex_book = 0 \<and> reviewCount ex_book = 0 \<and>
   books ex_store0 = books ex_empty @ [ex_book] \<and>
   createBook ex_env0 ex_bid ex_owner (ex_book_body\<lparr>req_genre := None\<rparr>) ex_empty
     = (Inl ValidationError, ex_empty)"
proof -
  have o: "req_other ex_book_body ''communityRating'' = Some (VNum 5)"
    "req_other ex_book_body ''reviewCount'' = Some (VNum 99)"
    by (simp_all add: ex_book_body_def)
  have v: "create_book_validators ex_env0 ex_book_body"
    by (simp add: create_book_validators_def ex_book_body_def ex_env0_def isLength_def
        san_trim_def trim_def is_space_def isIn_def route_genres_def isInt_def is_integer_def)
  have g: "req_genre ex_book_body = Some ''Fiction''" "req_publishedYear ex_book_body = Some 1965"
    by (simp_all add: ex_book_body_def)
  have n: "new_Book ex_env0 ex_bid ex_owner (san_trim (req_title ex_book_body))
             (san_trim (req_author ex_book_body)) (san_trim (req_description ex_book_body))
             ''Fiction'' 1965 = ex_book"
    by (simp add: new_Book_def ex_book_def ex_book_body_def ex_env0_def san_trim_def trim_def
        is_space_def)
  have z: "ex_book\<lparr>communityRating := 0, reviewCount := 0\<rparr> = ex_book"
    by (simp add: ex_book_def)
  have bv: "Book_validate ex_env0 ex_book"
    using ex_Book_validate unfolding z by (simp add: Book_validate_def valid_publicationYear_def
        ex_env_def ex_env0_def)
  have ps: "Book_pre_save ex_book = ex_book"
    using ex_Book_pre_save unfolding z .
  have ts: "ex_book\<lparr>book_createdAt := now ex_env0, book_updatedAt := now ex_env0\<rparr> = ex_book"
    by (simp add: ex_book_def ex_env0_def)
  have "Book_insert ex_env0 ex_book ex_empty = Inr (ex_book, ex_store0)"
    using bv by (simp add: Book_insert_def ps ts) (simp add: ex_empty_def ex_store0_def)
  then have c: "createBook ex_env0 ex_bid ex_owner ex_book_body ex_empty = (Inr ex_book, ex_store0)"
    using v g by (simp add: createBook_def n)
  have "communityRating ex_book = 0 \<and> reviewCount ex_book = 0 \<and>
          books ex_store0 = books ex_empty @ [ex_book]"
    by (rule book_routes_never_set_aggregates
        [where e = ex_env0 and nid = ex_bid and u = ex_owner and body = ex_book_body
          and s = ex_empty, THEN conjunct1, THEN mp]) (rule c)
  then have a: "communityRating ex_book = 0" "reviewCount ex_book = 0"
    "books ex_store0 = books ex_empty @ [ex_book]"
    by simp_all
  have "\<not> create_book_validators ex_env0 (ex_book_body\<lparr>req_genre := None\<rparr>)"
    by (simp add: create_book_validators_def isIn_def)
  then have f: "fst (createBook ex_env0 ex_bid ex_owner (ex_book_body\<lparr>req_genre := None\<rparr>)
                       ex_empty) = Inl ValidationError"
    by (simp add: createBook_def)
  have "snd (createBook ex_env0 ex_bid ex_owner (ex_book_body\<lparr>req_genre := None\<rparr>) ex_empty)
          = ex_empty"
    by (rule book_routes_never_set_aggregates
        [where e = ex_env0 and nid = ex_bid and u = ex_owner
          and body = "ex_book_body\<lparr>req_genre := None\<rparr>" and s = ex_empty
          and err = ValidationError, THEN conjunct2, THEN conjunct1, THEN mp])
      (simp add: f [symmetric])
  with f have d: "createBook ex_env0 ex_bid ex_owner (ex_book_body\<lparr>req_genre := None\<rparr>)
                    ex_empty = (Inl ValidationError, ex_empty)"
    by (simp add: prod_eq_iff)
  from o c a d show ?thesis
    by (intro conjI)
qed

end
